theory Spec2Isabelle
  imports Complex_Main "HOL-Library.Sublist"
begin

chapter \<open>The model\<close>

section \<open>Python strings\<close>

text \<open>
  A Python \<open>str\<close> is a sequence of code points. The model covers the code points below
  256 (ASCII and the Latin-1 block, which holds the German letters the scripts test for):
  a \<^typ>\<open>char\<close> is read as the code point of the same number, and \<^typ>\<open>string\<close> is the
  type of the lines, headwords and translations. The character predicates below are
  Python's \<open>str.isspace\<close>, \<open>str.isupper\<close>, \<open>str.islower\<close>, \<open>str.isalpha\<close> and
  \<open>str.lower\<close> on that range.
\<close>

definition py_isspace :: "char \<Rightarrow> bool" where
  "py_isspace c = (let n = (of_char c :: nat) in
     (9 \<le> n \<and> n \<le> 13) \<or> (28 \<le> n \<and> n \<le> 32) \<or> n = 133 \<or> n = 160)"

definition py_isupper :: "char \<Rightarrow> bool" where
  "py_isupper c = (let n = (of_char c :: nat) in
     (65 \<le> n \<and> n \<le> 90) \<or> (192 \<le> n \<and> n \<le> 214) \<or> (216 \<le> n \<and> n \<le> 222))"

definition py_islower :: "char \<Rightarrow> bool" where
  "py_islower c = (let n = (of_char c :: nat) in
     (97 \<le> n \<and> n \<le> 122) \<or> n = 170 \<or> n = 181 \<or> n = 186 \<or>
     (223 \<le> n \<and> n \<le> 246) \<or> (248 \<le> n \<and> n \<le> 255))"

definition py_isalpha :: "char \<Rightarrow> bool" where
  "py_isalpha c = (py_isupper c \<or> py_islower c)"

definition py_isdecimal :: "char \<Rightarrow> bool" where
  "py_isdecimal c = (let n = (of_char c :: nat) in 48 \<le> n \<and> n \<le> 57)"

text \<open>The class \<open>\w\<close> of the \<open>re\<close> module: alphanumeric (\<open>str.isalnum\<close>) or underscore.\<close>

definition py_isword :: "char \<Rightarrow> bool" where
  "py_isword c = (let n = (of_char c :: nat) in
     py_isalpha c \<or> py_isdecimal c \<or> n = 95 \<or>
     n = 178 \<or> n = 179 \<or> n = 185 \<or> n = 188 \<or> n = 189 \<or> n = 190)"

definition lower_char :: "char \<Rightarrow> char" where
  "lower_char c = (if py_isupper c then char_of ((of_char c :: nat) + 32) else c)"

definition lower :: "string \<Rightarrow> string" where
  "lower s = map lower_char s"

text \<open>\<open>s.strip()\<close>, \<open>s.lstrip(chars)\<close>, \<open>s.rstrip(chars)\<close>, \<open>s.strip(chars)\<close>.\<close>

definition lstrip :: "string \<Rightarrow> string" where
  "lstrip s = dropWhile py_isspace s"

definition rstrip :: "string \<Rightarrow> string" where
  "rstrip s = rev (dropWhile py_isspace (rev s))"

definition strip :: "string \<Rightarrow> string" where
  "strip s = rstrip (lstrip s)"

definition lstrip_chars :: "string \<Rightarrow> string \<Rightarrow> string" where
  "lstrip_chars chars s = dropWhile (\<lambda>c. c \<in> set chars) s"

definition rstrip_chars :: "string \<Rightarrow> string \<Rightarrow> string" where
  "rstrip_chars chars s = rev (dropWhile (\<lambda>c. c \<in> set chars) (rev s))"

definition strip_chars :: "string \<Rightarrow> string \<Rightarrow> string" where
  "strip_chars chars s = rstrip_chars chars (lstrip_chars chars s)"

text \<open>\<open>s.startswith(p)\<close>, \<open>s.endswith(p)\<close> and the substring test \<open>p in s\<close>.\<close>

fun startswith :: "string \<Rightarrow> string \<Rightarrow> bool" where
  "startswith s [] = True"
| "startswith [] (p # ps) = False"
| "startswith (c # cs) (p # ps) = (c = p \<and> startswith cs ps)"

definition endswith :: "string \<Rightarrow> string \<Rightarrow> bool" where
  "endswith s p = startswith (rev s) (rev p)"

fun contains :: "string \<Rightarrow> string \<Rightarrow> bool" where
  "contains [] p = (p = [])"
| "contains (c # cs) p = (startswith (c # cs) p \<or> contains cs p)"

text \<open>\<open>s.split()\<close>: the maximal runs of non-whitespace characters.\<close>

fun split_ws_acc :: "string \<Rightarrow> string \<Rightarrow> string list" where
  "split_ws_acc w [] = (if w = [] then [] else [rev w])"
| "split_ws_acc w (c # cs) =
     (if py_isspace c then (if w = [] then split_ws_acc [] cs else rev w # split_ws_acc [] cs)
      else split_ws_acc (c # w) cs)"

definition split_ws :: "string \<Rightarrow> string list" where
  "split_ws s = split_ws_acc [] s"

text \<open>\<open>sep.join(parts)\<close>.\<close>

fun join :: "string \<Rightarrow> string list \<Rightarrow> string" where
  "join sep [] = []"
| "join sep [p] = p"
| "join sep (p # q # ps) = p @ sep @ join sep (q # ps)"

text \<open>\<open>s.isalpha()\<close> and \<open>s.islower()\<close> on a whole string.\<close>

definition str_isalpha :: "string \<Rightarrow> bool" where
  "str_isalpha s = (s \<noteq> [] \<and> list_all py_isalpha s)"

definition str_islower :: "string \<Rightarrow> bool" where
  "str_islower s = (list_ex py_islower s \<and> \<not> list_ex py_isupper s)"

text \<open>Indexing \<open>s[0]\<close> raises \<open>IndexError\<close> on the empty string: \<open>None\<close> here.\<close>

definition index0 :: "string \<Rightarrow> char option" where
  "index0 s = (case s of [] \<Rightarrow> None | c # _ \<Rightarrow> Some c)"

section \<open>Regular expressions\<close>

text \<open>
  The patterns of the scripts are values of \<open>regex\<close>; the matcher follows the
  backtracking order of Python's \<open>re\<close>: alternatives left to right, greedy repetition
  longest first, lazy repetition shortest first, and the first complete match wins. A
  match state records the character before the cursor (for \<open>\b\<close> and \<open>^\<close>), the text
  still to read, and the texts of the capture groups closed so far, latest first (the scripts read
  groups 1 and 2 only; the inner groups of the patterns whose groups are never read
  carry no \<open>Grp\<close>).
\<close>

datatype citem = Ch char | Rng char char | ClsW | ClsD | ClsS

datatype regex =
    Lit char
  | Cls "citem list"
  | NCls "citem list"
  | Seq regex regex
  | Alt regex regex
  | Star regex
  | Plus regex
  | LazyPlus regex
  | Opt regex
  | Rep nat regex
  | Grp nat regex
  | Bol
  | Eol
  | WordB
  | Eps

datatype mstate = MState (prev: "char option") (rest: string) (caps: "(nat \<times> string) list")

fun citem_match :: "citem \<Rightarrow> char \<Rightarrow> bool" where
  "citem_match (Ch a) c = (c = a)"
| "citem_match (Rng a b) c = ((of_char a :: nat) \<le> of_char c \<and> (of_char c :: nat) \<le> of_char b)"
| "citem_match ClsW c = py_isword c"
| "citem_match ClsD c = py_isdecimal c"
| "citem_match ClsS c = py_isspace c"

definition cls_match :: "bool \<Rightarrow> citem list \<Rightarrow> char \<Rightarrow> bool" where
  "cls_match ic items c =
     (list_ex (\<lambda>i. citem_match i c) items \<or>
      (ic \<and> list_ex (\<lambda>i. citem_match i (lower_char c)) items))"

definition lit_match :: "bool \<Rightarrow> char \<Rightarrow> char \<Rightarrow> bool" where
  "lit_match ic a c = (if ic then lower_char c = lower_char a else c = a)"

definition step_char :: "(char \<Rightarrow> bool) \<Rightarrow> mstate \<Rightarrow> (mstate \<Rightarrow> mstate option) \<Rightarrow> mstate option" where
  "step_char p st k =
     (case rest st of
        [] \<Rightarrow> None
      | c # cs \<Rightarrow> if p c then k (MState (Some c) cs (caps st)) else None)"

definition progress :: "mstate \<Rightarrow> mstate \<Rightarrow> bool" where
  "progress st st' = (length (rest st') < length (rest st))"

primrec star_loop ::
  "(mstate \<Rightarrow> (mstate \<Rightarrow> mstate option) \<Rightarrow> mstate option) \<Rightarrow> nat \<Rightarrow> mstate \<Rightarrow>
   (mstate \<Rightarrow> mstate option) \<Rightarrow> mstate option" where
  "star_loop f 0 st k = k st"
| "star_loop f (Suc n) st k =
     (case f st (\<lambda>st'. if progress st st' then star_loop f n st' k else None) of
        Some r \<Rightarrow> Some r
      | None \<Rightarrow> k st)"

primrec lazy_loop ::
  "(mstate \<Rightarrow> (mstate \<Rightarrow> mstate option) \<Rightarrow> mstate option) \<Rightarrow> nat \<Rightarrow> mstate \<Rightarrow>
   (mstate \<Rightarrow> mstate option) \<Rightarrow> mstate option" where
  "lazy_loop f 0 st k = k st"
| "lazy_loop f (Suc n) st k =
     (case k st of
        Some r \<Rightarrow> Some r
      | None \<Rightarrow> f st (\<lambda>st'. if progress st st' then lazy_loop f n st' k else None))"

primrec rep_loop ::
  "(mstate \<Rightarrow> (mstate \<Rightarrow> mstate option) \<Rightarrow> mstate option) \<Rightarrow> nat \<Rightarrow> mstate \<Rightarrow>
   (mstate \<Rightarrow> mstate option) \<Rightarrow> mstate option" where
  "rep_loop f 0 st k = k st"
| "rep_loop f (Suc n) st k = f st (\<lambda>st'. rep_loop f n st' k)"

definition at_eol :: "mstate \<Rightarrow> bool" where
  "at_eol st = (rest st = [] \<or> rest st = [CHR 0x0A])"

definition at_wordb :: "mstate \<Rightarrow> bool" where
  "at_wordb st =
     ((case prev st of None \<Rightarrow> False | Some c \<Rightarrow> py_isword c) \<noteq>
      (case rest st of [] \<Rightarrow> False | c # _ \<Rightarrow> py_isword c))"

primrec rmatch :: "bool \<Rightarrow> regex \<Rightarrow> mstate \<Rightarrow> (mstate \<Rightarrow> mstate option) \<Rightarrow> mstate option" where
  "rmatch ic (Lit a) st k = step_char (lit_match ic a) st k"
| "rmatch ic (Cls items) st k = step_char (cls_match ic items) st k"
| "rmatch ic (NCls items) st k = step_char (\<lambda>c. \<not> cls_match ic items c) st k"
| "rmatch ic (Seq r1 r2) st k = rmatch ic r1 st (\<lambda>st'. rmatch ic r2 st' k)"
| "rmatch ic (Alt r1 r2) st k =
     (case rmatch ic r1 st k of Some r \<Rightarrow> Some r | None \<Rightarrow> rmatch ic r2 st k)"
| "rmatch ic (Star r) st k = star_loop (rmatch ic r) (length (rest st)) st k"
| "rmatch ic (Plus r) st k =
     rmatch ic r st (\<lambda>st'. star_loop (rmatch ic r) (length (rest st')) st' k)"
| "rmatch ic (LazyPlus r) st k =
     rmatch ic r st (\<lambda>st'. lazy_loop (rmatch ic r) (length (rest st')) st' k)"
| "rmatch ic (Opt r) st k =
     (case rmatch ic r st k of Some r \<Rightarrow> Some r | None \<Rightarrow> k st)"
| "rmatch ic (Rep n r) st k = rep_loop (rmatch ic r) n st k"
| "rmatch ic (Grp g r) st k =
     rmatch ic r st
       (\<lambda>st'. k (MState (prev st') (rest st')
                   ((g, take (length (rest st) - length (rest st')) (rest st)) # caps st')))"
| "rmatch ic Bol st k = (if prev st = None then k st else None)"
| "rmatch ic Eol st k = (if at_eol st then k st else None)"
| "rmatch ic WordB st k = (if at_wordb st then k st else None)"
| "rmatch ic Eps st k = k st"

text \<open>\<open>re.match\<close>: a match starting at the first character.\<close>

definition re_match :: "bool \<Rightarrow> regex \<Rightarrow> string \<Rightarrow> mstate option" where
  "re_match ic r s = rmatch ic r (MState None s []) Some"

definition matches :: "regex \<Rightarrow> string \<Rightarrow> bool" where
  "matches r s = (re_match False r s \<noteq> None)"

definition matches_ic :: "regex \<Rightarrow> string \<Rightarrow> bool" where
  "matches_ic r s = (re_match True r s \<noteq> None)"

text \<open>\<open>m.group(g)\<close> of a match object; \<open>None\<close> when the group took no part.\<close>

definition group :: "mstate \<Rightarrow> nat \<Rightarrow> string option" where
  "group m g = map_of (caps m) g"

text \<open>\<open>re.search\<close>: the first match, trying every start position from the left.\<close>

fun search_from :: "bool \<Rightarrow> regex \<Rightarrow> char option \<Rightarrow> string \<Rightarrow> mstate option" where
  "search_from ic r p [] = rmatch ic r (MState p [] []) Some"
| "search_from ic r p (c # cs) =
     (case rmatch ic r (MState p (c # cs) []) Some of
        Some m \<Rightarrow> Some m
      | None \<Rightarrow> search_from ic r (Some c) cs)"

definition re_search :: "regex \<Rightarrow> string \<Rightarrow> mstate option" where
  "re_search r s = search_from False r None s"

text \<open>
  \<open>re.findall\<close> for a pattern with one group: the group texts of the non-overlapping
  matches, left to right. After a match that read \<open>n\<close> characters the scan resumes
  behind it (\<open>skip\<close> counts the characters still to pass over).
\<close>

fun findall_from :: "regex \<Rightarrow> nat \<Rightarrow> char option \<Rightarrow> string \<Rightarrow> string list" where
  "findall_from r skip p [] =
     (if skip = 0 then
        (case rmatch False r (MState p [] []) Some of
           Some m \<Rightarrow> [case group m 1 of Some g \<Rightarrow> g | None \<Rightarrow> []]
         | None \<Rightarrow> [])
      else [])"
| "findall_from r skip p (c # cs) =
     (if skip = 0 then
        (case rmatch False r (MState p (c # cs) []) Some of
           Some m \<Rightarrow>
             (case group m 1 of Some g \<Rightarrow> g | None \<Rightarrow> []) #
             findall_from r (length (c # cs) - length (rest m) - 1) (Some c) cs
         | None \<Rightarrow> findall_from r 0 (Some c) cs)
      else findall_from r (skip - 1) (Some c) cs)"

definition re_findall :: "regex \<Rightarrow> string \<Rightarrow> string list" where
  "re_findall r s = findall_from r 0 None s"

text \<open>\<open>re.sub(pattern, repl, s)\<close> with a literal replacement.\<close>

fun sub_from :: "regex \<Rightarrow> string \<Rightarrow> nat \<Rightarrow> char option \<Rightarrow> string \<Rightarrow> string" where
  "sub_from r repl skip p [] =
     (if skip = 0 then
        (case rmatch False r (MState p [] []) Some of Some m \<Rightarrow> repl | None \<Rightarrow> [])
      else [])"
| "sub_from r repl skip p (c # cs) =
     (if skip = 0 then
        (case rmatch False r (MState p (c # cs) []) Some of
           Some m \<Rightarrow>
             (if length (rest m) = length (c # cs) then repl @ c # sub_from r repl 0 (Some c) cs
              else repl @ sub_from r repl (length (c # cs) - length (rest m) - 1) (Some c) cs)
         | None \<Rightarrow> c # sub_from r repl 0 (Some c) cs)
      else sub_from r repl (skip - 1) (Some c) cs)"

definition re_sub :: "regex \<Rightarrow> string \<Rightarrow> string \<Rightarrow> string" where
  "re_sub r repl s = sub_from r repl 0 None s"

fun seqs :: "regex list \<Rightarrow> regex" where
  "seqs [] = Eps"
| "seqs [r] = r"
| "seqs (r # q # rs) = Seq r (seqs (q # rs))"

definition lits :: "string \<Rightarrow> regex" where
  "lits s = seqs (map Lit s)"

fun alts :: "regex list \<Rightarrow> regex" where
  "alts [] = Eps"
| "alts [r] = r"
| "alts (r # q # rs) = Alt r (alts (q # rs))"

section \<open>The English vocabulary parser\<close>

text \<open>
  \<open>scripts/create_anki_from_images.py\<close>, \<open>parse_english_vocabulary\<close>. The non-ASCII
  characters of its literals are the German letters \<open>a o u\<close> with diaeresis (small and
  capital), the sharp s and the two guillemets; they are named here by code point. A
  copy of the script whose UTF-8 bytes were read in a double-byte code page and stored
  again shows each of them as one CJK glyph (the small a with diaeresis, bytes C3 A4, as
  U+76F2); the letters meant are the same.
\<close>

type_synonym entry = "string \<times> string"

definition a_uml :: char where "a_uml = CHR 0xE4"
definition o_uml :: char where "o_uml = CHR 0xF6"
definition u_uml :: char where "u_uml = CHR 0xFC"
definition sharp_s :: char where "sharp_s = CHR 0xDF"
definition cap_a_uml :: char where "cap_a_uml = CHR 0xC4"
definition cap_o_uml :: char where "cap_o_uml = CHR 0xD6"
definition cap_u_uml :: char where "cap_u_uml = CHR 0xDC"
definition guillemet_left :: char where "guillemet_left = CHR 0xAB"
definition guillemet_right :: char where "guillemet_right = CHR 0xBB"

subsection \<open>Character classes shared by the patterns\<close>

definition cls_letters :: "citem list" where
  \<comment> \<open>\<^verbatim>\<open>a-zA-Z\<close>\<close>
  "cls_letters = [Rng CHR ''a'' CHR ''z'', Rng CHR ''A'' CHR ''Z'']"

definition cls_lower :: "citem list" where
  \<comment> \<open>\<^verbatim>\<open>[a-z]\<close>\<close>
  "cls_lower = [Rng CHR ''a'' CHR ''z'']"

definition cls_marks :: "citem list" where
  \<comment> \<open>\<^verbatim>\<open>[\*"\d\s]\<close>\<close>
  "cls_marks = [Ch CHR ''*'', Ch CHR 0x22, ClsD, ClsS]"

definition cls_marks_q :: "citem list" where
  \<comment> \<open>\<^verbatim>\<open>[\*"\d\s\']\<close>\<close>
  "cls_marks_q = [Ch CHR ''*'', Ch CHR 0x22, ClsD, ClsS, Ch CHR 0x27]"

definition cls_phrase :: "citem list" where
  \<comment> \<open>\<^verbatim>\<open>[a-zA-Z\s\'\-\(\)\.\/\+\,\?!]\<close>\<close>
  "cls_phrase = cls_letters @ [ClsS, Ch CHR 0x27, Ch CHR ''-'', Ch CHR ''('', Ch CHR '')'',
     Ch CHR ''.'', Ch CHR ''/'', Ch CHR ''+'', Ch CHR '','', Ch CHR ''?'', Ch CHR ''!'']"

definition cls_words :: "citem list" where
  \<comment> \<open>\<^verbatim>\<open>[a-zA-Z\s\'\-]\<close>\<close>
  "cls_words = cls_letters @ [ClsS, Ch CHR 0x27, Ch CHR ''-'']"

definition cls_words_comma :: "citem list" where
  \<comment> \<open>\<^verbatim>\<open>[a-zA-Z\s\'\-\,]\<close>\<close>
  "cls_words_comma = cls_letters @ [ClsS, Ch CHR 0x27, Ch CHR ''-'', Ch CHR '','']"

definition cls_hyphen_word :: "citem list" where
  \<comment> \<open>\<^verbatim>\<open>[a-zA-Z\-]\<close>\<close>
  "cls_hyphen_word = cls_letters @ [Ch CHR ''-'']"

definition cls_german_letters :: "citem list" where
  \<comment> \<open>\<^verbatim>\<open>a-zA-Z\<close> and the seven German letters\<close>
  "cls_german_letters = cls_letters @
     [Ch a_uml, Ch o_uml, Ch u_uml, Ch sharp_s, Ch cap_a_uml, Ch cap_o_uml, Ch cap_u_uml]"

definition re_bracket :: regex where
  \<comment> \<open>\<^verbatim>\<open>\[[^\]]+\]\<close>\<close>
  "re_bracket = seqs [Lit CHR ''['', Plus (NCls [Ch CHR '']'']), Lit CHR '']'']"

definition re_spaces :: regex where
  \<comment> \<open>\<^verbatim>\<open>\s*\<close>\<close>
  "re_spaces = Star (Cls [ClsS])"

subsection \<open>The word lists\<close>

definition skip_patterns :: "regex list" where
  "skip_patterns =
    [seqs [Bol, Plus (Cls [ClsD]), Eol],
     seqs [Bol, lits ''one hundred''],
     seqs [Bol, lits ''two hundred''],
     seqs [Bol, lits ''three hundred''],
     seqs [Bol, lits ''Unit '', Plus (Cls [ClsD])],
     seqs [Bol, lits ''Check-in'', Eol],
     seqs [Bol, lits ''Vocabulary'', Eol],
     seqs [Bol, lits ''Media collocations'', Eol],
     seqs [Bol, lits ''Media'', Eol],
     seqs [Bol, lits ''Verb'', Eol],
     seqs [Bol, lits ''Collocations'', Eol],
     seqs [Bol, lits ''Translation'', Eol],
     seqs [Bol, lits ''print media'', Eol],
     seqs [Bol, lits ''TV'', Eol],
     seqs [Bol, lits ''radio'', Eol],
     seqs [Bol, lits ''online media'', Eol],
     seqs [Bol, lits ''social media'', Eol],
     seqs [Bol, lits ''Describing developments'', Eol],
     seqs [Bol, lits ''Adjective collocations'', Eol],
     seqs [Bol, lits ''Nouns and adjectives'', Eol],
     seqs [Bol, lits ''Nouns and verbs with the same form'', Eol],
     seqs [Bol, lits ''Skills:''],
     seqs [Bol, lits ''Unit task:''],
     seqs [Bol, lits ''Story:''],
     seqs [Bol, lits ''Across cultures''],
     seqs [Bol, lits ''Focus '', Plus (Cls [ClsD])],
     seqs [Bol, lits ''Station '', Plus (Cls [ClsD])]]"

definition german_indicators :: "char list" where
  "german_indicators = [a_uml, o_uml, u_uml, sharp_s, cap_a_uml, cap_o_uml, cap_u_uml]"

definition german_starters :: "string list" where
  "german_starters =
    [''der '', ''die '', ''das '', ''ein '', ''eine '', ''etw.'', ''jdn.'', ''jdm.'', ''jmd.'',
     ''sich '', ''(sich)'', ''(tun)'', ''(zu)'', ''(mit)'', [CHR ''('', u_uml] @ ''ber)'',
     ''(auf)'', ''(an)'',
     ''anderen'', ''anderer'', ''Meinung'', ''nicht'', ''sein; '', ''haben; '']"

definition skip_line_patterns :: "regex list" where
  "skip_line_patterns =
    [seqs [Bol, lits ''Fr.''],
     seqs [Bol, lits ''Lat.''],
     seqs [Bol, Lit CHR ''!''],
     seqs [Bol, lits ''->''],
     seqs [Bol, Plus (Cls [ClsW]), lits '' ->''],
     seqs [Bol, Plus (Cls cls_lower), lits '' = '', Plus (Cls cls_lower)],
     seqs [Bol, Plus (Cls cls_lower), Lit CHR '' '', Lit guillemet_left],
     seqs [Rep 3 (Cls [ClsD]), Eol],
     seqs [Bol, Lit CHR ''[''],
     seqs [Bol, lits ''one hundred''],
     seqs [Bol, lits ''two hundred''],
     re_bracket,
     seqs [Bol, lits ''to me ''],
     seqs [Bol, lits ''to you ''],
     seqs [Bol, lits ''to him ''],
     seqs [Bol, lits ''to her '']]"

definition skip_substrings :: "string list" where
  "skip_substrings =
    [''->'', [guillemet_left], [guillemet_right], '' = '', ''] (pl)'', ''(pl.)'', ''(sing.)'']"

definition english_sentence_starters :: "string list" where
  "english_sentence_starters =
    [''I '', ''I'm '', ''I've '', ''I'd '', ''I'll '',
     ''You '', ''You're '', ''You've '', ''You'd '', ''You'll '',
     ''He '', ''He's '', ''He'd '', ''He'll '', ''She '', ''She's '', ''She'd '', ''She'll '',
     ''We '', ''We're '', ''We've '', ''We'd '', ''We'll '',
     ''They '', ''They're '', ''They've '', ''They'd '', ''They'll '',
     ''It '', ''It's '', ''It'd '', ''It'll '', ''Its '',
     ''My '', ''Your '', ''His '', ''Her '', ''Our '', ''Their '',
     ''The '', ''A '', ''An '', ''Some '', ''Any '', ''This '', ''That '', ''These '', ''Those '',
     ''If '', ''When '', ''Where '', ''What '', ''Why '', ''How '', ''Who '',
     ''Are '', ''Is '', ''Was '', ''Were '', ''Do '', ''Does '', ''Did '',
     ''Have '', ''Has '', ''Had '', ''Can '', ''Could '', ''Will '', ''Would '', ''Should '',
     ''Never '', ''Always '', ''Just '', ''With '', ''As '', ''To '', ''For '', ''From '',
     ''Arms '', ''Sports '', ''There '']"

definition re_to_verb :: regex where
  \<comment> \<open>\<^verbatim>\<open>^to [a-z]+\<close>\<close>
  "re_to_verb = seqs [Bol, lits ''to '', Plus (Cls cls_lower)]"

definition german_patterns :: "string list" where
  "german_patterns =
    [''ss'', ''ck'', ''sch'', ''tzt'', ''ngen'', ''ung'', ''heit'', ''keit'', ''rden'', ''eich'']"

definition common_german_words :: "string list" where
  "common_german_words =
    [''werden'', ''haben'', ''machen'', ''gehen'', ''kommen'', ''nehmen'',
     ''sehen'', ''geben'', ''wissen'', ''k'' @ [o_uml] @ ''nnen'', ''m'' @ [u_uml] @ ''ssen'',
     ''wollen'', ''sollen'', ''d'' @ [u_uml] @ ''rfen'', ''lassen'', ''bleiben'', ''finden'',
     ''denken'', ''vergleichbar'', ''digital'', ''blond'']"

subsection \<open>The line predicates\<close>

definition should_skip_line :: "string \<Rightarrow> bool" where
  "should_skip_line text =
     (if text = [] then True
      else if list_ex (\<lambda>sub. contains text sub) skip_substrings then True
      else if list_ex (\<lambda>pattern. matches pattern text) skip_line_patterns then True
      else False)"

text \<open>
  \<open>is_likely_german\<close> and \<open>is_continuation\<close> read \<open>text[0]\<close>; the result is \<open>None\<close>
  where that read would raise.
\<close>

definition is_likely_german :: "string \<Rightarrow> bool option" where
  "is_likely_german text =
     (if text = [] \<or> length text < 2 then Some False
      else if should_skip_line text then Some False
      else if list_ex (\<lambda>c. c \<in> set text) german_indicators then Some True
      else if list_ex (\<lambda>s. startswith text s) german_starters then Some True
      else if matches re_to_verb text then Some False
      else
        (case index0 text of
           None \<Rightarrow> None
         | Some c0 \<Rightarrow>
             if py_isupper c0 \<and> length text < 40 \<and>
                \<not> list_ex (\<lambda>s. startswith text s) english_sentence_starters
             then Some True
             else if py_islower c0 \<and> length text < 50 \<and>
                (CHR '';'' \<in> set text \<or> CHR ''/'' \<in> set text)
             then Some True
             else if py_islower c0 \<and> length text < 25 \<and> length (split_ws text) = 1
             then
               (if list_ex (\<lambda>p. contains (lower text) p) german_patterns then Some True
                else if lower text \<in> set common_german_words then Some True
                else Some False)
             else Some False))"

definition is_english_sentence :: "string \<Rightarrow> bool" where
  "is_english_sentence text =
     (if text = [] then False
      else length text > 30 \<and> list_ex (\<lambda>s. startswith text s) english_sentence_starters)"

definition is_continuation :: "string \<Rightarrow> bool option" where
  "is_continuation text =
     (if text = [] \<or> length text < 2 then Some False
      else if should_skip_line text then Some False
      else if matches re_to_verb text then Some False
      else
        (case index0 text of
           None \<Rightarrow> None
         | Some c0 \<Rightarrow>
             Some ((py_islower c0 \<or> list_ex (\<lambda>c. c \<in> set text) german_indicators) \<and>
                   length text < 50 \<and> \<not> is_english_sentence text)))"

subsection \<open>The patterns of the scanning loop\<close>

definition pat_word_pron :: regex where
  \<comment> \<open>\<^verbatim>\<open>^[\*"\d\s]*([a-zA-Z][a-zA-Z\s\'\-\(\)\.\/\+\,\?!]+?)\s*\[([^\]]+)\]\]?(?:\s*\((?:pl|sing)\.\?\)?)?$\<close>\<close>
  "pat_word_pron =
     seqs [Bol, Star (Cls cls_marks),
           Grp 1 (Seq (Cls cls_letters) (LazyPlus (Cls cls_phrase))),
           re_spaces, Lit CHR ''['', Grp 2 (Plus (NCls [Ch CHR '']''])), Lit CHR '']'',
           Opt (Lit CHR '']''),
           Opt (seqs [re_spaces, Lit CHR ''('', Alt (lits ''pl'') (lits ''sing''),
                      Lit CHR ''.'', Lit CHR ''?'', Opt (Lit CHR '')'')]),
           Eol]"

definition pat_word_pron_alt :: regex where
  \<comment> \<open>\<^verbatim>\<open>^[\*"\d\s]*([a-zA-Z][a-zA-Z\s\'\-\,]+)\s*\[[^\]]+\]\]?(?:,\s*\w+\s*\[[^\]]+\]\]?)?\s*(?:\((?:pl|sing)\.?\))?$\<close>\<close>
  "pat_word_pron_alt =
     seqs [Bol, Star (Cls cls_marks),
           Grp 1 (Seq (Cls cls_letters) (Plus (Cls cls_words_comma))),
           re_spaces, re_bracket, Opt (Lit CHR '']''),
           Opt (seqs [Lit CHR '','', re_spaces, Plus (Cls [ClsW]), re_spaces, re_bracket,
                      Opt (Lit CHR '']'')]),
           re_spaces,
           Opt (seqs [Lit CHR ''('', Alt (lits ''pl'') (lits ''sing''), Opt (Lit CHR ''.''),
                      Lit CHR '')'']),
           Eol]"

definition pat_word_pron_ocr :: regex where
  \<comment> \<open>\<^verbatim>\<open>^[\*"\d\s]*([a-zA-Z][a-zA-Z\s\'\-]+)\s*\[[^\]]+\]\]$\<close>\<close>
  "pat_word_pron_ocr =
     seqs [Bol, Star (Cls cls_marks),
           Grp 1 (Seq (Cls cls_letters) (Plus (Cls cls_words))),
           re_spaces, re_bracket, Lit CHR '']'', Eol]"

definition pat_multi_word :: regex where
  \<comment> \<open>\<^verbatim>\<open>([a-zA-Z][a-zA-Z\-]+)\s*\[[^\]]+\]\<close>\<close>
  "pat_multi_word =
     seqs [Grp 1 (Seq (Cls cls_letters) (Plus (Cls cls_hyphen_word))), re_spaces, re_bracket]"

definition pat_inline :: regex where
  \<comment> \<open>\<^verbatim>\<open>^[\*"\d\s]*([a-zA-Z][a-zA-Z\s\'\-]+)\s*\[[^\]]+\]\s+(G[G\-\/\s]+)$\<close>, \<open>G\<close> the letters
      \<^verbatim>\<open>a-zA-Z\<close> and the seven German letters\<close>
  "pat_inline =
     seqs [Bol, Star (Cls cls_marks),
           Grp 1 (Seq (Cls cls_letters) (Plus (Cls cls_words))),
           re_spaces, re_bracket, Plus (Cls [ClsS]),
           Grp 2 (Seq (Cls cls_german_letters)
                      (Plus (Cls (cls_german_letters @ [Ch CHR ''-'', Ch CHR ''/'', ClsS])))),
           Eol]"

definition pat_plural :: regex where
  \<comment> \<open>\<^verbatim>\<open>^[\*"\d\s]*([a-zA-Z][a-zA-Z\s\'\-]+)\s*\[[^\]]+\],\s*\w+\s*\(pl\)$\<close>\<close>
  "pat_plural =
     seqs [Bol, Star (Cls cls_marks),
           Grp 1 (Seq (Cls cls_letters) (Plus (Cls cls_words))),
           re_spaces, re_bracket, Lit CHR '','', re_spaces, Plus (Cls [ClsW]), re_spaces,
           lits ''(pl)'', Eol]"

definition pat_pron_start :: regex where
  \<comment> \<open>\<^verbatim>\<open>^\[[^\]]*\]\<close>\<close>
  "pat_pron_start = seqs [Bol, Lit CHR ''['', Star (NCls [Ch CHR '']'']), Lit CHR '']'']"

definition pat_pron_broken :: regex where
  \<comment> \<open>\<^verbatim>\<open>^\[\S+\].*\]$\<close>\<close>
  "pat_pron_broken =
     seqs [Bol, Lit CHR ''['', Plus (NCls [ClsS]), Lit CHR '']'', Star (NCls [Ch CHR 0x0A]),
           Lit CHR '']'', Eol]"

definition pat_vocab_start :: regex where
  \<comment> \<open>\<^verbatim>\<open>^[\*"\d\s\']*[a-zA-Z][a-zA-Z\s\'\-]+\s*\[\<close>\<close>
  "pat_vocab_start =
     seqs [Bol, Star (Cls cls_marks_q), Cls cls_letters, Plus (Cls cls_words), re_spaces,
           Lit CHR ''['']"

definition pat_word :: regex where
  \<comment> \<open>\<^verbatim>\<open>^[\*"\d\s\']*([a-zA-Z][a-zA-Z\s\'\-\(\)\.\/\+\,\?!]+?)(?:\s*\((?:AE|BE|no pl|pl)\))?$\<close>\<close>
  "pat_word =
     seqs [Bol, Star (Cls cls_marks_q),
           Grp 1 (Seq (Cls cls_letters) (LazyPlus (Cls cls_phrase))),
           Opt (seqs [re_spaces, Lit CHR ''('',
                      alts [lits ''AE'', lits ''BE'', lits ''no pl'', lits ''pl''],
                      Lit CHR '')'']),
           Eol]"

definition pat_marker :: regex where
  \<comment> \<open>\<^verbatim>\<open>\((AE|BE|no pl)\)$\<close>\<close>
  "pat_marker =
     seqs [Lit CHR ''('', Grp 1 (alts [lits ''AE'', lits ''BE'', lits ''no pl'']),
           Lit CHR '')'', Eol]"

definition pat_entry_start :: regex where
  \<comment> \<open>\<^verbatim>\<open>^[\*"\d\s]*[a-zA-Z][a-zA-Z\s\'\-\(\)\.\/\+\,\?!]+?\s*\[[^\]]+\]\<close>\<close>
  "pat_entry_start =
     seqs [Bol, Star (Cls cls_marks), Cls cls_letters, LazyPlus (Cls cls_phrase), re_spaces,
           re_bracket]"

definition pat_pron_only :: regex where
  \<comment> \<open>\<^verbatim>\<open>^\[[^\]]+\]$\<close>\<close>
  "pat_pron_only = seqs [Bol, re_bracket, Eol]"

definition pat_entry_line :: regex where
  \<comment> \<open>\<^verbatim>\<open>^[\*"\d\s]*[a-zA-Z][a-zA-Z\s\'\-\(\)\.\/\+\,\?!]+?\s*\[[^\]]+\]$\<close>\<close>
  "pat_entry_line =
     seqs [Bol, Star (Cls cls_marks), Cls cls_letters, LazyPlus (Cls cls_phrase), re_spaces,
           re_bracket, Eol]"

definition pat_reflexive :: regex where
  \<comment> \<open>\<^verbatim>\<open>^(to \w+ (oneself|yourself|himself|herself|themselves|ourselves))$\<close>\<close>
  "pat_reflexive =
     seqs [Bol,
           Grp 1 (seqs [lits ''to '', Plus (Cls [ClsW]), Lit CHR '' '',
                        alts [lits ''oneself'', lits ''yourself'', lits ''himself'',
                              lits ''herself'', lits ''themselves'', lits ''ourselves'']]),
           Eol]"

definition pat_simple_word :: regex where
  \<comment> \<open>\<^verbatim>\<open>^[\*"\d\s\']*([a-zA-Z][a-zA-Z\-]+)$\<close>\<close>
  "pat_simple_word =
     seqs [Bol, Star (Cls cls_marks_q),
           Grp 1 (Seq (Cls cls_letters) (Plus (Cls cls_hyphen_word))), Eol]"

definition pat_bracket_start :: regex where
  \<comment> \<open>\<^verbatim>\<open>^\[\<close>\<close>
  "pat_bracket_start = seqs [Bol, Lit CHR ''['']"

definition pat_double_semicolon :: regex where
  \<comment> \<open>\<^verbatim>\<open>;\s*;\<close>\<close>
  "pat_double_semicolon = seqs [Lit CHR '';'', re_spaces, Lit CHR '';'']"

definition pat_whitespace :: regex where
  \<comment> \<open>\<^verbatim>\<open>\s+\<close>\<close>
  "pat_whitespace = Plus (Cls [ClsS])"

definition incomplete_endings :: "string list" where
  "incomplete_endings =
    [''nicht'', ''und'', ''oder'', ''bei'', ''von'', ''f'' @ [u_uml] @ ''r'', ''das'', ''der'',
     ''die'']"

text \<open>\<open>m.group(1)\<close> for a pattern whose first group always takes part in a match.\<close>

definition group1 :: "mstate \<Rightarrow> string" where
  "group1 m = (case group m 1 of Some g \<Rightarrow> g | None \<Rightarrow> [])"

definition group2 :: "mstate \<Rightarrow> string" where
  "group2 m = (case group m 2 of Some g \<Rightarrow> g | None \<Rightarrow> [])"

subsection \<open>Collecting the translation of a headword\<close>

text \<open>
  Appending a fragment to \<open>german_parts\<close>: a last part that ends in a hyphen is
  joined with the fragment, the hyphen dropped.
\<close>

definition add_part :: "string list \<Rightarrow> string \<Rightarrow> string list" where
  "add_part german_parts cleaned =
     (if german_parts \<noteq> [] \<and> endswith (last german_parts) ''-''
      then butlast german_parts @ [butlast (last german_parts) @ cleaned]
      else german_parts @ [cleaned])"

definition looks_incomplete :: "string \<Rightarrow> bool" where
  "looks_incomplete cleaned =
     (let last_word = (if split_ws cleaned \<noteq> []
                       then rstrip_chars '')'' (lower (last (split_ws cleaned))) else [])
      in last_word \<in> set incomplete_endings \<and> \<not> endswith cleaned '')'')"

text \<open>
  The \<open>while j < max_lines\<close> loops of patterns 1 and 2, over the lines \<open>lines[j]\<close> still
  in the window; \<open>stop\<close> is the test for the next vocabulary entry, which differs
  between the two loops.
\<close>

fun collect_parts :: "(string \<Rightarrow> bool) \<Rightarrow> string list \<Rightarrow> string list \<Rightarrow> string list" where
  "collect_parts stop [] german_parts = german_parts"
| "collect_parts stop (l # ls) german_parts =
     (let next_line = strip l in
      if stop next_line then german_parts
      else if next_line = [] then collect_parts stop ls german_parts
      else if should_skip_line next_line then collect_parts stop ls german_parts
      else if is_english_sentence next_line then collect_parts stop ls german_parts
      else if is_likely_german next_line = Some True then
        (let cleaned = strip (rstrip_chars '';'' next_line) in
         if cleaned \<noteq> [] \<and> length cleaned > 1 then
           (if \<not> endswith cleaned ''-'' \<and> \<not> looks_incomplete cleaned
            then add_part german_parts cleaned
            else collect_parts stop ls (add_part german_parts cleaned))
         else collect_parts stop ls german_parts)
      else if is_continuation next_line = Some True then
        (let cleaned = strip (rstrip_chars '';'' next_line) in
         if cleaned \<noteq> [] \<and> length cleaned > 1 then
           (if endswith cleaned '')'' \<or>
               (length (add_part german_parts cleaned) \<ge> 2 \<and> \<not> endswith cleaned ''-'')
            then add_part german_parts cleaned
            else collect_parts stop ls (add_part german_parts cleaned))
         else collect_parts stop ls german_parts)
      else collect_parts stop ls german_parts)"

text \<open>Joining the parts: \<open>'; '.join\<close>, the two \<open>re.sub\<close> calls and \<open>strip('; ')\<close>.\<close>

definition combine_parts :: "string list \<Rightarrow> string" where
  "combine_parts german_parts =
     strip_chars ''; ''
       (re_sub pat_whitespace '' ''
          (re_sub pat_double_semicolon '';'' (join ''; '' german_parts)))"

definition finish_entry :: "string \<Rightarrow> string list \<Rightarrow> entry list" where
  "finish_entry english_word german_parts =
     (if german_parts \<noteq> [] then
        (let german = combine_parts german_parts in
         if english_word \<noteq> [] \<and> german \<noteq> [] \<and> length german > 1
         then [(english_word, german)] else [])
      else [])"

subsection \<open>The pattern attempts at one cursor position\<close>

text \<open>
  Each attempt returns \<open>None\<close> when the code falls through to the next pattern, and the
  entries to append when it ends the iteration with \<open>continue\<close>.
\<close>

definition pattern7 :: "string list \<Rightarrow> nat \<Rightarrow> string \<Rightarrow> entry list option" where
  "pattern7 lines i line =
     (let multi_word_match = re_findall pat_multi_word line in
      if multi_word_match \<noteq> [] \<and> length multi_word_match \<ge> 1 then
        (let first_word = strip (hd multi_word_match) in
         if length first_word \<ge> 3 \<and> i + 1 < length lines then
           (let next_line = strip (lines ! (i + 1)) in
            if is_likely_german next_line = Some True \<and> \<not> should_skip_line next_line
            then Some [(first_word, next_line)] else None)
         else None)
      else None)"

definition pattern3 :: "string \<Rightarrow> entry list option" where
  "pattern3 line =
     (case re_match False pat_inline line of
        None \<Rightarrow> None
      | Some inline_match \<Rightarrow>
          (let english_word = lstrip_chars ''*\"0123456789 '' (strip (group1 inline_match));
               inline_german = strip (group2 inline_match)
           in if english_word \<noteq> [] \<and> inline_german \<noteq> [] \<and> length english_word \<ge> 2
              then Some [(english_word, inline_german)] else None))"

text \<open>The search for a pronunciation line, \<open>for k in range(i + 1, min(i + 4, len(lines)))\<close>.\<close>

fun find_pron :: "nat \<Rightarrow> string list \<Rightarrow> nat option" where
  "find_pron k [] = None"
| "find_pron k (l # ls) =
     (let next_line = strip l in
      if matches pat_pron_start next_line \<or> matches pat_pron_broken next_line then Some k
      else if should_skip_line next_line \<or> next_line = [] then find_pron (Suc k) ls
      else if matches pat_vocab_start next_line then None
      else find_pron (Suc k) ls)"

text \<open>The lines between the headword and its pronunciation line.\<close>

fun collect_between :: "string list \<Rightarrow> string list" where
  "collect_between [] = []"
| "collect_between (l # ls) =
     (let between_line = strip l in
      if between_line = [] \<or> should_skip_line between_line then collect_between ls
      else if is_english_sentence between_line then collect_between ls
      else if is_likely_german between_line = Some True then
        (let cleaned = strip (rstrip_chars '';'' between_line) in
         if cleaned \<noteq> [] \<and> length cleaned > 1 then cleaned # collect_between ls
         else collect_between ls)
      else collect_between ls)"

definition pattern2 :: "string list \<Rightarrow> nat \<Rightarrow> string \<Rightarrow> entry list option" where
  "pattern2 lines i line =
     (case find_pron (i + 1) (take (min (i + 4) (length lines) - (i + 1)) (drop (i + 1) lines)) of
        None \<Rightarrow> None
      | Some pron_line_idx \<Rightarrow>
          (case re_match False pat_word line of
             None \<Rightarrow> None
           | Some word_match \<Rightarrow>
               (let stripped = lstrip_chars (''*\"'' @ [CHR 0x27] @ ''0123456789 '')
                                 (strip (group1 word_match));
                    english_word =
                      (case re_search pat_marker line of
                         None \<Rightarrow> stripped
                       | Some marker_match \<Rightarrow> stripped @ '' ('' @ group1 marker_match @ '')'')
                in if length english_word \<ge> 2 \<and> length english_word < 45 then
                     (let between = collect_between
                                      (take (pron_line_idx - (i + 1)) (drop (i + 1) lines));
                          max_lines = min (pron_line_idx + 12) (length lines);
                          german_parts =
                            collect_parts
                              (\<lambda>t. matches pat_entry_start t \<or> matches pat_pron_only t)
                              (take (max_lines - (pron_line_idx + 1))
                                 (drop (pron_line_idx + 1) lines))
                              between
                      in Some (finish_entry english_word german_parts))
                   else None)))"

text \<open>The \<open>while j < min(i + 5, len(lines))\<close> loop of pattern 5.\<close>

fun collect_reflexive :: "string list \<Rightarrow> string list \<Rightarrow> string list" where
  "collect_reflexive [] german_parts = german_parts"
| "collect_reflexive (l # ls) german_parts =
     (let next_line = strip l in
      if next_line = [] \<or> should_skip_line next_line then collect_reflexive ls german_parts
      else if is_likely_german next_line = Some True \<or> is_continuation next_line = Some True
      then
        (let cleaned = strip (rstrip_chars '';'' next_line) in
         if cleaned \<noteq> [] \<and> length cleaned > 1 then
           (if \<not> endswith cleaned ''-'' then german_parts @ [cleaned]
            else collect_reflexive ls (german_parts @ [cleaned]))
         else collect_reflexive ls german_parts)
      else collect_reflexive ls german_parts)"

definition pattern5 :: "string list \<Rightarrow> nat \<Rightarrow> string \<Rightarrow> entry list option" where
  "pattern5 lines i line =
     (case re_match True pat_reflexive line of
        None \<Rightarrow> None
      | Some reflexive_match \<Rightarrow>
          (let english_word = strip (group1 reflexive_match);
               german_parts =
                 collect_reflexive
                   (take (min (i + 5) (length lines) - (i + 1)) (drop (i + 1) lines)) []
           in if german_parts \<noteq> [] then
                Some [(english_word,
                       strip_chars ''; '' (re_sub pat_whitespace '' '' (join ''; '' german_parts)))]
              else None))"

definition pattern6 :: "string list \<Rightarrow> nat \<Rightarrow> string \<Rightarrow> entry list option" where
  "pattern6 lines i line =
     (case re_match False pat_simple_word line of
        None \<Rightarrow> None
      | Some simple_word_match \<Rightarrow>
          (let english_word = strip (group1 simple_word_match) in
           if length english_word \<ge> 4 \<and> length english_word < 25 then
             (let has_nearby_pron =
                    list_ex (\<lambda>l. matches pat_bracket_start (strip l))
                      (take (min (i + 5) (length lines) - (i + 1)) (drop (i + 1) lines))
              in if \<not> has_nearby_pron \<and> i + 1 < length lines then
                   (let next_line = strip (lines ! (i + 1));
                        is_german_like =
                          (list_ex (\<lambda>c. c \<in> set next_line) german_indicators \<or>
                           (str_islower (take 1 next_line) \<and>
                            (CHR '';'' \<in> set next_line \<or> CHR ''/'' \<in> set next_line) \<and>
                            length next_line < 30))
                    in if is_german_like \<and> length next_line < 40 \<and> length next_line > 2 \<and>
                          \<not> is_english_sentence next_line \<and> \<not> should_skip_line next_line
                       then Some [(english_word, next_line)] else None)
                 else None)
           else None))"

text \<open>The tail of the loop body, reached with a match of pattern 1 or 4.\<close>

definition pattern1 :: "string list \<Rightarrow> nat \<Rightarrow> mstate \<Rightarrow> entry list" where
  "pattern1 lines i m =
     (let english_word = lstrip_chars ''*\"0123456789 '' (strip (group1 m)) in
      if length english_word < 2 then []
      else
        (let max_lines = min (i + 10) (length lines);
             german_parts =
               collect_parts (\<lambda>t. matches pat_entry_line t)
                 (take (max_lines - (i + 1)) (drop (i + 1) lines)) []
         in finish_entry english_word german_parts))"

subsection \<open>The scanning loop\<close>

datatype cursor_move = ByOne | ByTwo

definition advance :: "cursor_move \<Rightarrow> nat" where
  "advance m = (case m of ByOne \<Rightarrow> 1 | ByTwo \<Rightarrow> 2)"

text \<open>
  The three \<open>re.match\<close> calls that open the loop body (pattern 1 and its two alternates).
\<close>

definition first_match :: "string \<Rightarrow> mstate option" where
  "first_match line =
     (case re_match False pat_word_pron line of
        Some m \<Rightarrow> Some m
      | None \<Rightarrow>
          (case re_match False pat_word_pron_alt line of
             Some m \<Rightarrow> Some m
           | None \<Rightarrow> re_match False pat_word_pron_ocr line))"

text \<open>
  One iteration of \<open>while i < len(lines)\<close>: how far the cursor moves and the entries
  appended to \<open>vocabulary\<close>. \<open>unmatched_step\<close> is the body from pattern 7 on when the
  opening \<open>re.match\<close> calls found nothing.
\<close>

definition unmatched_step :: "string list \<Rightarrow> nat \<Rightarrow> string \<Rightarrow> cursor_move \<times> entry list" where
  "unmatched_step lines i line =
     (case pattern7 lines i line of
        Some es \<Rightarrow> (ByOne, es)
      | None \<Rightarrow>
     (case pattern3 line of
        Some es \<Rightarrow> (ByOne, es)
      | None \<Rightarrow>
     (case re_match False pat_plural line of
        Some plural_match \<Rightarrow> (ByOne, pattern1 lines i plural_match)
      | None \<Rightarrow>
     (case (if i + 1 < length lines then pattern2 lines i line else None) of
        Some es \<Rightarrow> (ByTwo, es)
      | None \<Rightarrow>
     (case pattern5 lines i line of
        Some es \<Rightarrow> (ByOne, es)
      | None \<Rightarrow>
     (case pattern6 lines i line of
        Some es \<Rightarrow> (ByOne, es)
      | None \<Rightarrow> (ByOne, [])))))))"

definition scan_step :: "string list \<Rightarrow> nat \<Rightarrow> cursor_move \<times> entry list" where
  "scan_step lines i =
     (let line = strip (lines ! i) in
      if line = [] then (ByOne, [])
      else if list_ex (\<lambda>pattern. matches_ic pattern line) skip_patterns then (ByOne, [])
      else
        (case first_match line of
           Some m \<Rightarrow> (ByOne, pattern1 lines i m)
         | None \<Rightarrow> unmatched_step lines i line))"

function scan :: "string list \<Rightarrow> nat \<Rightarrow> entry list \<Rightarrow> entry list" where
  "scan lines i vocabulary =
     (if i < length lines
      then scan lines (i + advance (fst (scan_step lines i)))
             (vocabulary @ snd (scan_step lines i))
      else vocabulary)"
  by pat_completeness auto
termination
  by (relation "measure (\<lambda>(lines, i, vocabulary). length lines - i)")
     (auto simp: advance_def split: cursor_move.splits)

declare scan.simps [simp del]

subsection \<open>Filtering and deduplication\<close>

definition looks_like_german :: "string \<Rightarrow> bool" where
  "looks_like_german text =
     (let german_words = [''sein'', ''haben'', ''nicht'', ''und'', ''oder'', ''mit'', ''sich''];
          text_lower = lower text
      in if list_ex (\<lambda>c. c \<in> set text) german_indicators then True
         else if list_ex (\<lambda>w. w \<in> set (split_ws text_lower)) german_words then True
         else False)"

definition german_compounds :: "string list" where
  "german_compounds = [''familie'', ''schule'', ''haus'', ''zeit'', ''wort'', ''tag'', ''buch'']"

definition loanwords :: "string list" where
  "loanwords =
    [''digital'', ''cover'', ''image'', ''college'', ''trainer'', ''content'', ''communication'',
     ''blond'', ''argument'', ''international'', ''normal'', ''social'', ''personal'',
     ''original'', ''formal'', ''central'', ''natural'', ''total'', ''final'', ''global'',
     ''local'', ''legal'', ''vital'', ''mental'', ''dental'', ''fatal'', ''brutal'', ''neutral'',
     ''tribal'']"

definition pat_sentence_clause :: regex where
  \<comment> \<open>\<^verbatim>\<open>\b(Nobody|Jack|I|We|They|He|She)\s+(was|were|am|is|are)\b\<close>\<close>
  "pat_sentence_clause =
     seqs [WordB,
           alts [lits ''Nobody'', lits ''Jack'', lits ''I'', lits ''We'', lits ''They'',
                 lits ''He'', lits ''She''],
           Plus (Cls [ClsS]),
           alts [lits ''was'', lits ''were'', lits ''am'', lits ''is'', lits ''are''],
           WordB]"

definition pat_sentence_tail :: regex where
  \<comment> \<open>\<^verbatim>\<open>[A-Z][a-z]+\s+[a-z]+\s+[a-z]+\.?$\<close>\<close>
  "pat_sentence_tail =
     seqs [Cls [Rng CHR ''A'' CHR ''Z''], Plus (Cls cls_lower), Plus (Cls [ClsS]),
           Plus (Cls cls_lower), Plus (Cls [ClsS]), Plus (Cls cls_lower), Opt (Lit CHR ''.''),
           Eol]"

text \<open>\<open>s.count('-')\<close>.\<close>

definition count_char :: "char \<Rightarrow> string \<Rightarrow> nat" where
  "count_char c s = length (filter (\<lambda>x. x = c) s)"

text \<open>
  \<open>is_bad_entry\<close> reads \<open>eng[0]\<close> once without a length test before it; the result is
  \<open>None\<close> where that read would raise.
\<close>

definition is_bad_entry :: "string \<Rightarrow> string \<Rightarrow> bool option" where
  "is_bad_entry eng ger =
     (if looks_like_german eng then Some True
      else if length eng > 8 \<and> (case index0 eng of None \<Rightarrow> False | Some c \<Rightarrow> py_isupper c) \<and>
              str_isalpha eng \<and> CHR '' '' \<notin> set eng \<and>
              list_ex (\<lambda>p. contains (lower eng) p) german_compounds
      then Some True
      else if strip (lower eng) = strip (lower ger) \<and> lower eng \<notin> set loanwords then Some True
      else
        (case index0 eng of
           None \<Rightarrow> None
         | Some c0 \<Rightarrow>
             if py_isupper c0 \<and> CHR ''.'' \<in> set eng \<and> length eng > 30 then Some True
             else if re_search pat_sentence_clause ger \<noteq> None then Some True
             else if startswith ger ''to '' \<and> contains ger '' - '' \<and> count_char CHR ''-'' ger = 1
             then Some True
             else if re_search pat_sentence_tail ger \<noteq> None \<and> length ger > 30 then Some True
             else if lower eng = ''so'' \<and> contains ger (''gew'' @ [o_uml] @ ''hnt'') then Some True
             else if CHR ''/'' \<in> set eng \<and>
                     (contains (lower ger) ''books'' \<or> contains (lower ger) ''comics'')
             then Some True
             else Some False))"

text \<open>
  The list comprehension \<open>[(e, g) for e, g in vocabulary if not is_bad_entry(e, g)]\<close>;
  an exception raised for one entry ends the whole comprehension.
\<close>

fun filter_bad :: "entry list \<Rightarrow> entry list option" where
  "filter_bad [] = Some []"
| "filter_bad ((e, g) # vocabulary) =
     (case is_bad_entry e g of
        None \<Rightarrow> None
      | Some bad \<Rightarrow>
          (case filter_bad vocabulary of
             None \<Rightarrow> None
           | Some kept \<Rightarrow> Some (if bad then kept else (e, g) # kept)))"

text \<open>The deduplication loop; \<open>seen\<close> is the set of keys met so far.\<close>

definition dedup_key :: "string \<Rightarrow> string" where
  "dedup_key eng = strip (lower eng)"

fun deduplicate :: "string list \<Rightarrow> entry list \<Rightarrow> entry list" where
  "deduplicate seen [] = []"
| "deduplicate seen ((eng, ger) # vocabulary) =
     (let eng_lower = dedup_key eng in
      if eng_lower \<notin> set seen then (eng, ger) # deduplicate (eng_lower # seen) vocabulary
      else deduplicate seen vocabulary)"

definition parse_english_vocabulary :: "string list \<Rightarrow> entry list option" where
  "parse_english_vocabulary lines =
     (case filter_bad (scan lines 0 []) of
        None \<Rightarrow> None
      | Some vocabulary \<Rightarrow> Some (deduplicate [] vocabulary))"


section \<open>The validation script\<close>

text \<open>
  \<open>scripts/validate_vocabulary.py\<close>. An entry of the result lists is a Python dict; a
  field (named \<open>k_of\<close> for the key \<open>k\<close>) is \<open>None\<close> here when the dict has no such key or holds \<open>None\<close> under it, which
  is what \<open>dict.get\<close> returns in both cases. The score fields hold an \<open>int\<close> or a
  \<open>float\<close>; the type \<open>'f\<close> stands for the floats.
\<close>

datatype 'f num = IntVal int | FloatVal 'f

record 'f result_entry =
  foreign_of :: string
  ocr_of :: string
  translator_of :: "string option"
  similarity_of :: "'f num option"
  seq_similarity_of :: "'f option"
  word_overlap_of :: "'f option"
  in_raw_text_of :: "bool option"
  reason_of :: "string option"

record 'f results =
  valid :: "'f result_entry list"
  suspicious :: "'f result_entry list"
  errors :: "'f result_entry list"

subsection \<open>\<open>create_enriched_anki_file\<close>\<close>

text \<open>
  The dict comprehension \<open>{(e["foreign"], e["ocr"]): e for e in entries}\<close>: a later
  entry with the same key replaces an earlier one.
\<close>

definition pairs_dict :: "'f result_entry list \<Rightarrow> (string \<times> string) \<rightharpoonup> 'f result_entry" where
  "pairs_dict entries = fold (\<lambda>e m. m((foreign_of e, ocr_of e) \<mapsto> e)) entries Map.empty"

text \<open>
  The loop body: the text written for one entry and whether it counts as enriched.
\<close>

definition enriched_line ::
  "((string \<times> string) \<rightharpoonup> 'f result_entry) \<Rightarrow> ((string \<times> string) \<rightharpoonup> 'f result_entry) \<Rightarrow>
   entry \<Rightarrow> string \<times> bool" where
  "enriched_line valid_pairs suspicious_pairs e =
     (case e of (foreign, translation) \<Rightarrow>
        if valid_pairs (foreign, translation) \<noteq> None
        then (foreign @ [CHR 0x09] @ translation @ [CHR 0x0A], False)
        else
          (case suspicious_pairs (foreign, translation) of
             Some entry \<Rightarrow>
               (case translator_of entry of
                  Some azure_translation \<Rightarrow>
                    if azure_translation \<noteq> [] \<and>
                       strip (lower azure_translation) \<noteq> strip (lower translation)
                    then (foreign @ [CHR 0x09] @
                            (translation @ '' [Azure: '' @ azure_translation @ '']'') @
                            [CHR 0x0A], True)
                    else (foreign @ [CHR 0x09] @ translation @ [CHR 0x0A], False)
                | None \<Rightarrow> (foreign @ [CHR 0x09] @ translation @ [CHR 0x0A], False))
           | None \<Rightarrow> (foreign @ [CHR 0x09] @ translation @ [CHR 0x0A], False)))"

definition enriched_header :: "string \<Rightarrow> string list" where
  "enriched_header deck_name =
     [''#separator:Tab'' @ [CHR 0x0A],
      ''#html:true'' @ [CHR 0x0A],
      ''#deck:'' @ deck_name @ [CHR 0x0A],
      ''#notetype:Einfach (beide Richtungen)'' @ [CHR 0x0A]]"

text \<open>
  The strings passed to \<open>f.write\<close> for the entries, in order; the file holds the header
  followed by their concatenation.
\<close>

definition enriched_body :: "entry list \<Rightarrow> 'f results \<Rightarrow> string list" where
  "enriched_body original_entries res =
     map (\<lambda>e. fst (enriched_line (pairs_dict (valid res)) (pairs_dict (suspicious res)) e))
       original_entries"

text \<open>
  \<open>create_enriched_anki_file\<close>: the text of the file written to \<open>output_path\<close> and the
  returned pair \<open>(count, enriched_count)\<close>.
\<close>

definition create_enriched_anki_file ::
  "entry list \<Rightarrow> 'f results \<Rightarrow> string \<Rightarrow> string \<times> nat \<times> nat" where
  "create_enriched_anki_file original_entries res deck_name =
     (concat (enriched_header deck_name @ enriched_body original_entries res),
      length original_entries,
      length (filter (\<lambda>e. snd (enriched_line (pairs_dict (valid res))
                                   (pairs_dict (suspicious res)) e)) original_entries))"

section \<open>The flashcard file\<close>

text \<open>
  A text file is the string of its characters. Writing is modelled on a system whose
  line separator is the line feed, so that \<open>f.write\<close> stores its argument as it is;
  reading in text mode ends a line at a line feed, a carriage return, or the pair of
  them, and hands each line over with a final line feed.
\<close>

definition TAB :: char where "TAB = CHR 0x09"
definition LF :: char where "LF = CHR 0x0A"
definition CR :: char where "CR = CHR 0x0D"

text \<open>\<open>for line in f\<close>; \<open>after_cr\<close> holds right behind a carriage return.\<close>

fun read_lines :: "bool \<Rightarrow> string \<Rightarrow> string \<Rightarrow> string list" where
  "read_lines after_cr acc [] = (if acc = [] then [] else [rev acc])"
| "read_lines after_cr acc (c # cs) =
     (if c = LF then
        (if after_cr then read_lines False acc cs
         else rev (LF # acc) # read_lines False [] cs)
      else if c = CR then rev (LF # acc) # read_lines True [] cs
      else read_lines False (c # acc) cs)"

definition file_lines :: "string \<Rightarrow> string list" where
  "file_lines content = read_lines False [] content"

text \<open>\<open>s.split(sep)\<close> for a one-character separator.\<close>

fun split_on :: "char \<Rightarrow> string \<Rightarrow> string list" where
  "split_on sep [] = [[]]"
| "split_on sep (c # cs) =
     (if c = sep then [] # split_on sep cs
      else (case split_on sep cs of [] \<Rightarrow> [[c]] | part # parts \<Rightarrow> (c # part) # parts))"

subsection \<open>\<open>create_anki_file\<close> (\<open>scripts/create_anki_from_images.py\<close>)\<close>

definition sentence_starters :: "string list" where
  "sentence_starters =
    [''Ich '', ''Wir '', ''Du '', ''Er '', ''Sie '', ''Es '', ''Da ist'', ''Auf geht'',
     ''Hast '', ''Wartest '', ''Was '', ''Wie '', ''Wann '', ''Wo '']"

definition sentence_indicators :: "string list" where
  "sentence_indicators =
    [''haben wir'', ''gibt kein'', ''gibt es'', ''ist dunkel'', ''man sieht'',
     ''soir,'', ''Souvent'', ''Gestern'', ''Internet'', ''schreit'', ''nicht allein'',
     ''Vampir'', ''Das Gitter'', ''gehen wir'', ''interessant ist'', ''Recht hast'',
     ''gegen moi'', ''contre moi'', ''qu'est'', ''Qu'est'']"

text \<open>
  The aggressive filtering for the languages other than English: \<open>True\<close> when one of
  its tests ends the iteration with \<open>continue\<close>.
\<close>

definition aggressive_skip :: "string \<Rightarrow> string \<Rightarrow> bool" where
  "aggressive_skip front back =
     (if endswith back ''-'' \<or> endswith back '' eine'' \<or> endswith back '' ein'' \<or>
         endswith back '' im'' then True
      else if contains back ''(inv.)'' \<or> contains back ''invariable'' \<or>
              contains back ''bedeutet'' then True
      else if list_ex (\<lambda>s. startswith front s) [''ein '', ''eine '', ''der '', ''die '', ''das '']
      then True
      else if length back > 50 then True
      else if CHR ''?'' \<in> set back then True
      else if list_ex (\<lambda>s. startswith back s) sentence_starters then True
      else if list_ex (\<lambda>ind. contains (lower back) (lower ind)) sentence_indicators then True
      else if back \<in> set [''ang'', ''der'', ''die'', ''das'', ''ein'', ''eine''] then True
      else False)"

text \<open>
  The loop over \<open>vocabulary\<close>: the strings written for the entries, in order. \<open>seen\<close>
  is the set of keys met so far.
\<close>

fun write_entries :: "bool \<Rightarrow> (string \<times> string) list \<Rightarrow> entry list \<Rightarrow> string list" where
  "write_entries is_curated_english seen [] = []"
| "write_entries is_curated_english seen ((front0, back0) # vocabulary) =
     (let front = strip front0; back = strip back0; key = (lower front, lower back) in
      if key \<in> set seen then write_entries is_curated_english seen vocabulary
      else if front = [] \<or> back = [] \<or> length front < 2 \<or> length back < 2
      then write_entries is_curated_english (key # seen) vocabulary
      else if is_curated_english
      then (front @ [TAB] @ back @ [LF]) #
           write_entries is_curated_english (key # seen) vocabulary
      else if aggressive_skip front back
      then write_entries is_curated_english (key # seen) vocabulary
      else (front @ [TAB] @ back @ [LF]) #
           write_entries is_curated_english (key # seen) vocabulary)"

definition anki_header :: "string \<Rightarrow> string \<Rightarrow> string list" where
  "anki_header deck_name notetype =
     [''#separator:Tab'' @ [LF],
      ''#html:false'' @ [LF],
      ''#deck:'' @ deck_name @ [LF],
      ''#notetype:'' @ notetype @ [LF]]"

text \<open>
  \<open>create_anki_file\<close>: the text of the file written to \<open>output_path\<close> and the returned
  number of entries written.
\<close>

definition create_anki_file :: "entry list \<Rightarrow> string \<Rightarrow> string \<Rightarrow> string \<Rightarrow> string \<times> nat" where
  "create_anki_file vocabulary deck_name notetype language =
     (let is_curated_english = (language = ''english'');
          body = write_entries is_curated_english [] vocabulary
      in (concat (anki_header deck_name notetype @ body), length body))"

subsection \<open>\<open>load_anki_file\<close> (\<open>scripts/validate_vocabulary.py\<close>)\<close>

fun load_lines :: "string list \<Rightarrow> entry list" where
  "load_lines [] = []"
| "load_lines (l # ls) =
     (let line = strip l in
      if line = [] \<or> startswith line ''#'' then load_lines ls
      else
        (let parts = split_on TAB line in
         if length parts \<ge> 2 then (parts ! 0, parts ! 1) # load_lines ls
         else load_lines ls))"

definition load_anki_file :: "string \<Rightarrow> entry list" where
  "load_anki_file content = load_lines (file_lines content)"

text \<open>
  The entry lists that \<open>create_anki_file\<close> writes without a change: fields already
  stripped, at least two characters long and free of tabs and line breaks, a headword
  that does not start with the header marker, no entry caught by the filtering of the
  language, and no two entries with the same case-folded pair.
\<close>

definition writable_entry :: "string \<Rightarrow> entry \<Rightarrow> bool" where
  "writable_entry language e =
     (case e of (front, back) \<Rightarrow>
        strip front = front \<and> strip back = back \<and> 2 \<le> length front \<and> 2 \<le> length back \<and>
        list_all (\<lambda>c. c \<noteq> TAB \<and> c \<noteq> LF \<and> c \<noteq> CR) (front @ back) \<and>
        \<not> startswith front ''#'' \<and>
        (language = ''english'' \<or> \<not> aggressive_skip front back))"

definition single_line :: "string \<Rightarrow> bool" where
  "single_line s = list_all (\<lambda>c. c \<noteq> LF \<and> c \<noteq> CR) s"

text \<open>Whether a pair is the key of an entry of a result list.\<close>

definition in_pairs :: "'f result_entry list \<Rightarrow> string \<Rightarrow> string \<Rightarrow> bool" where
  "in_pairs entries f t = list_ex (\<lambda>e. foreign_of e = f \<and> ocr_of e = t) entries"

text \<open>A small result set used to instantiate the theorems on the validation script.\<close>

definition demo_entry :: "string \<Rightarrow> string \<Rightarrow> string option \<Rightarrow> unit result_entry" where
  "demo_entry f t a =
     \<lparr>foreign_of = f, ocr_of = t, translator_of = a, similarity_of = None,
      seq_similarity_of = None, word_overlap_of = None, in_raw_text_of = None,
      reason_of = None\<rparr>"

definition demo_results :: "unit results" where
  "demo_results =
     \<lparr>valid = [demo_entry ''maison'' ''Haus'' (Some ''Haus'')],
      suspicious = [demo_entry ''chat'' ''Kater'' (Some ''Katze''),
                    demo_entry ''eau'' ''Wasser'' (Some ''WASSER '')],
      errors = [demo_entry ''chien'' ''Hund'' None]\<rparr>"

section \<open>The command line program\<close>

text \<open>
  \<open>main\<close> of \<open>scripts/create_anki_from_images.py\<close>. A path is the list of its parts, as
  \<open>pathlib\<close> splits it; the file system maps a path to a file with its text or to a
  directory. The collaborators outside the repository are parameters: Python's
  \<open>str.capitalize\<close>, the outcome of the OCR step (\<open>get_azure_client\<close> followed by
  \<open>extract_all_images\<close>: an exit status, an exception or the extracted lines), and the
  parser of the languages other than English.
\<close>

type_synonym path = "string list"

datatype node = File string | Dir

type_synonym filesystem = "path \<rightharpoonup> node"

record args =
  arg_folder :: path
  arg_language :: string
  arg_deck :: "string option"
  arg_notetype :: string
  arg_output :: "path option"
  arg_raw :: bool
  arg_force :: bool
  arg_reset :: bool

datatype ocr_outcome = OcrExit nat | OcrRaise | OcrLines "string list"

record collaborators =
  co_capitalize :: "string \<Rightarrow> string"
  co_ocr :: ocr_outcome
  co_parse_other :: "string list \<Rightarrow> string \<Rightarrow> entry list"

text \<open>
  How a run ends: \<open>sys.exit\<close> with a status, an exception nobody catches, or the return
  from \<open>main\<close> (exit status 0).
\<close>

datatype outcome = Exit nat | Uncaught | Returned

text \<open>\<open>parts[-2:]\<close>, \<open>path.name\<close> and \<open>path / name\<close>.\<close>

definition last_two :: "path \<Rightarrow> path" where
  "last_two parts = drop (length parts - 2) parts"

definition path_name :: "path \<Rightarrow> string" where
  "path_name p = (if p = [] then [] else last p)"

definition path_div :: "path \<Rightarrow> string \<Rightarrow> path" where
  "path_div p name = p @ filter (\<lambda>part. part \<noteq> [] \<and> part \<noteq> ''.'') (split_on CHR ''/'' name)"

text \<open>
  \<open>path.mkdir(parents=True, exist_ok=True)\<close>: \<open>None\<close> when it raises, which it does
  before it creates anything (the path or its nearest existing ancestor is a file).
\<close>

function mkdir_p :: "filesystem \<Rightarrow> path \<Rightarrow> filesystem option" where
  "mkdir_p fs p =
     (case fs p of
        Some Dir \<Rightarrow> Some fs
      | Some (File _) \<Rightarrow> None
      | None \<Rightarrow>
          (if p = [] then None
           else (case mkdir_p fs (butlast p) of
                   None \<Rightarrow> None
                 | Some fs' \<Rightarrow> Some (fs'(p \<mapsto> Dir)))))"
  by pat_completeness auto
termination
  by (relation "measure (\<lambda>(fs, p). length p)") auto

declare mkdir_p.simps [simp del]

text \<open>The \<open>--reset\<close> loop: every file directly in the folder is unlinked.\<close>

definition unlink_files :: "filesystem \<Rightarrow> path \<Rightarrow> filesystem" where
  "unlink_files fs dir =
     (\<lambda>p. if p \<noteq> [] \<and> butlast p = dir \<and> (case fs p of Some (File _) \<Rightarrow> True | _ \<Rightarrow> False)
          then None else fs p)"

text \<open>\<open>open(path, "w")\<close> and one \<open>write\<close>: \<open>None\<close> when the path is a directory.\<close>

definition write_file :: "filesystem \<Rightarrow> path \<Rightarrow> string \<Rightarrow> filesystem option" where
  "write_file fs p content =
     (case fs p of Some Dir \<Rightarrow> None | _ \<Rightarrow> Some (fs(p \<mapsto> File content)))"

definition deck_name_of :: "collaborators \<Rightarrow> args \<Rightarrow> string" where
  "deck_name_of co a =
     (case arg_deck a of
        Some d \<Rightarrow> if d \<noteq> [] then d
                  else join '' '' (map (co_capitalize co) (last_two (arg_folder a)))
      | None \<Rightarrow> join '' '' (map (co_capitalize co) (last_two (arg_folder a))))"

definition output_folder_of :: "args \<Rightarrow> path" where
  "output_folder_of a =
     (case arg_output a of
        Some out \<Rightarrow> if out \<noteq> [] then out else [''output'']
      | None \<Rightarrow> [''output''])"

definition file_suffix_of :: "args \<Rightarrow> string" where
  "file_suffix_of a =
     (let folder_parts = (if length (arg_folder a) \<ge> 2 then last_two (arg_folder a)
                          else [path_name (arg_folder a)])
      in join ''_'' folder_parts)"

definition output_file_of :: "args \<Rightarrow> path" where
  "output_file_of a = path_div (output_folder_of a) (''anki_'' @ file_suffix_of a @ ''.txt'')"

definition raw_file_of :: "args \<Rightarrow> path" where
  "raw_file_of a = path_div (output_folder_of a) (''raw_'' @ file_suffix_of a @ ''.txt'')"

text \<open>\<open>parse_vocabulary_lines\<close>; \<open>None\<close> when the English parser raises.\<close>

definition parse_vocabulary_lines :: "collaborators \<Rightarrow> string list \<Rightarrow> string \<Rightarrow> entry list option" where
  "parse_vocabulary_lines co lines source_language =
     (if source_language = ''english'' then parse_english_vocabulary lines
      else Some (co_parse_other co lines source_language))"

text \<open>Steps 3 and 4 of \<open>main\<close>, after the text has been extracted.\<close>

definition parse_and_create ::
  "collaborators \<Rightarrow> args \<Rightarrow> filesystem \<Rightarrow> string list \<Rightarrow> outcome \<times> filesystem" where
  "parse_and_create co a fs all_text =
     (case parse_vocabulary_lines co all_text (arg_language a) of
        None \<Rightarrow> (Uncaught, fs)
      | Some vocabulary \<Rightarrow>
          if vocabulary = [] then
            (case write_file fs (raw_file_of a) (join [LF] all_text) of
               None \<Rightarrow> (Uncaught, fs)
             | Some fs' \<Rightarrow> (Exit 0, fs'))
          else
            (case write_file fs (output_file_of a)
                    (fst (create_anki_file vocabulary (deck_name_of co a) (arg_notetype a)
                            (arg_language a))) of
               None \<Rightarrow> (Uncaught, fs)
             | Some fs' \<Rightarrow> (Returned, fs')))"

text \<open>Steps 1 and 2: the OCR collaborator and the optional raw text file.\<close>

definition extract_and_parse :: "collaborators \<Rightarrow> args \<Rightarrow> filesystem \<Rightarrow> outcome \<times> filesystem" where
  "extract_and_parse co a fs =
     (case co_ocr co of
        OcrExit status \<Rightarrow> (Exit status, fs)
      | OcrRaise \<Rightarrow> (Uncaught, fs)
      | OcrLines all_text \<Rightarrow>
          if arg_raw a then
            (case write_file fs (raw_file_of a) (join [LF] all_text) of
               None \<Rightarrow> (Uncaught, fs)
             | Some fs' \<Rightarrow> parse_and_create co a fs' all_text)
          else parse_and_create co a fs all_text)"

definition main :: "collaborators \<Rightarrow> args \<Rightarrow> filesystem \<Rightarrow> outcome \<times> filesystem" where
  "main co a fs =
     (if fs (arg_folder a) = None then (Exit 1, fs)
      else
        (case mkdir_p fs (output_folder_of a) of
           None \<Rightarrow> (Uncaught, fs)
         | Some fs1 \<Rightarrow>
             (let fs2 = (if arg_reset a then unlink_files fs1 (output_folder_of a) else fs1) in
              if \<not> arg_force a \<and> \<not> arg_reset a \<and> fs2 (output_file_of a) \<noteq> None
              then (Exit 0, fs2)
              else extract_and_parse co a fs2)))"

text \<open>A run used to instantiate the theorems on \<open>main\<close>.\<close>

definition demo_args :: args where
  "demo_args =
     \<lparr>arg_folder = [''input'', ''english'', ''unit-1''], arg_language = ''english'',
      arg_deck = None, arg_notetype = ''Einfach (beide Richtungen)'', arg_output = None,
      arg_raw = False, arg_force = False, arg_reset = False\<rparr>"

definition demo_fs :: filesystem where
  "demo_fs =
     [[''input'', ''english'', ''unit-1''] \<mapsto> Dir,
      [''output''] \<mapsto> Dir,
      [''output'', ''anki_english_unit-1.txt''] \<mapsto> File ''reviewed cards'']"

definition demo_collaborators :: collaborators where
  "demo_collaborators =
     \<lparr>co_capitalize = (\<lambda>s. s), co_ocr = OcrLines [''to compromise'', ''[x]'', ''Kompromisse''],
      co_parse_other = (\<lambda>lines language. [])\<rparr>"

subsection \<open>\<open>validate_vocabulary\<close>\<close>

text \<open>
  The arithmetic of the scores is floating point. Its operations are parameters, so that
  what is proved holds for the floats of the machine as for any other reading of them:
  the value of a decimal literal (\<open>f_lit\<close> applied to its text), addition, multiplication, the true division of two integers, the
  comparison \<open>>=\<close>, the format \<open>:.2f\<close>, and the ratio of \<open>difflib.SequenceMatcher\<close>.
\<close>

record 'f numerics =
  f_lit :: "string \<Rightarrow> 'f"
  f_add :: "'f \<Rightarrow> 'f \<Rightarrow> 'f"
  f_mul :: "'f \<Rightarrow> 'f \<Rightarrow> 'f"
  f_div_int :: "int \<Rightarrow> int \<Rightarrow> 'f"
  f_ge :: "'f \<Rightarrow> 'f \<Rightarrow> bool"
  f_format2 :: "'f \<Rightarrow> string"
  f_ratio :: "string \<Rightarrow> string \<Rightarrow> 'f"

definition articles :: "string list" where
  "articles = [''der '', ''die '', ''das '', ''ein '', ''eine '', ''etw. '', ''jdn. '', ''jdm. '']"

text \<open>The loop \<open>for art in articles\<close>, which strips the two texts side by side.\<close>

fun strip_articles :: "string list \<Rightarrow> string \<Rightarrow> string \<Rightarrow> string \<times> string" where
  "strip_articles [] t1 t2 = (t1, t2)"
| "strip_articles (art # arts) t1 t2 =
     strip_articles arts
       (if startswith t1 art then drop (length art) t1 else t1)
       (if startswith t2 art then drop (length art) t2 else t2)"

definition similarity_score :: "'f numerics \<Rightarrow> string \<Rightarrow> string \<Rightarrow> 'f" where
  "similarity_score ops text1 text2 =
     (if text1 = [] \<or> text2 = [] then f_lit ops ''0.0''
      else
        (case strip_articles articles (strip (lower text1)) (strip (lower text2)) of
           (t1, t2) \<Rightarrow> f_ratio ops t1 t2))"

definition stop_words :: "string list" where
  "stop_words = [''der'', ''die'', ''das'', ''ein'', ''eine'', ''und'', ''oder'', ''zu'', ''sich'',
     ''etw.'', ''jdn.'', ''jdm.'']"

definition word_overlap_score :: "'f numerics \<Rightarrow> string \<Rightarrow> string \<Rightarrow> 'f" where
  "word_overlap_score ops text1 text2 =
     (if text1 = [] \<or> text2 = [] then f_lit ops ''0.0''
      else
        (let words1 = set (split_ws (lower text1)) - set stop_words;
             words2 = set (split_ws (lower text2)) - set stop_words
         in if words1 = {} \<or> words2 = {} then f_lit ops ''0.0''
            else if words1 \<union> words2 \<noteq> {}
            then f_div_int ops (int (card (words1 \<inter> words2))) (int (card (words1 \<union> words2)))
            else f_lit ops ''0.0''))"

text \<open>
  The state of the loop: the three result lists and the texts sent to the translator so
  far. The translator (\<open>translate_text\<close> with the languages and the token fixed) is a
  parameter; its answer may depend on the number of earlier calls, and \<open>None\<close> is a
  failed call.
\<close>

record 'f vstate =
  result_lists :: "'f results"
  calls :: "string list"

definition too_short_result :: "string \<Rightarrow> string \<Rightarrow> 'f result_entry" where
  "too_short_result f ocr_translation =
     \<lparr>foreign_of = f, ocr_of = ocr_translation, translator_of = None,
      similarity_of = Some (IntVal 0), seq_similarity_of = None, word_overlap_of = None,
      in_raw_text_of = None, reason_of = Some ''Entry too short''\<rparr>"

definition error_result :: "string \<Rightarrow> string \<Rightarrow> 'f result_entry" where
  "error_result f ocr_translation =
     \<lparr>foreign_of = f, ocr_of = ocr_translation, translator_of = None,
      similarity_of = None, seq_similarity_of = None, word_overlap_of = None,
      in_raw_text_of = None, reason_of = Some ''Translation API error''\<rparr>"

definition combined_score :: "'f numerics \<Rightarrow> 'f \<Rightarrow> 'f \<Rightarrow> 'f" where
  "combined_score ops seq_sim word_sim =
     f_add ops (f_mul ops (f_lit ops ''0.6'') seq_sim) (f_mul ops (f_lit ops ''0.4'') word_sim)"

definition scored_result ::
  "'f numerics \<Rightarrow> string \<Rightarrow> string \<Rightarrow> string \<Rightarrow> string \<Rightarrow> 'f result_entry" where
  "scored_result ops raw_text f ocr_translation translator_result =
     (let seq_sim = similarity_score ops ocr_translation translator_result;
          word_sim = word_overlap_score ops ocr_translation translator_result;
          in_raw = (if raw_text \<noteq> [] then contains (lower raw_text) (lower ocr_translation)
                    else True)
      in \<lparr>foreign_of = f, ocr_of = ocr_translation, translator_of = Some translator_result,
          similarity_of = Some (FloatVal (combined_score ops seq_sim word_sim)),
          seq_similarity_of = Some seq_sim, word_overlap_of = Some word_sim,
          in_raw_text_of = Some in_raw, reason_of = None\<rparr>)"

definition low_similarity_reason :: "'f numerics \<Rightarrow> 'f \<Rightarrow> string" where
  "low_similarity_reason ops score = ''Low similarity ('' @ f_format2 ops score @ '')''"

text \<open>The body of the loop over the entries.\<close>

definition validate_entry ::
  "'f numerics \<Rightarrow> (nat \<Rightarrow> string \<Rightarrow> string option) \<Rightarrow> 'f \<Rightarrow> string \<Rightarrow> 'f vstate \<Rightarrow> entry \<Rightarrow>
   'f vstate" where
  "validate_entry ops translate threshold raw_text st e =
     (case e of (f, ocr_translation) \<Rightarrow>
        if length f < 2 \<or> length ocr_translation < 2 then
          st\<lparr>result_lists := (result_lists st)\<lparr>suspicious :=
                 suspicious (result_lists st) @ [too_short_result f ocr_translation]\<rparr>\<rparr>
        else
          (case translate (length (calls st)) f of
             None \<Rightarrow>
               st\<lparr>result_lists := (result_lists st)\<lparr>errors := errors (result_lists st) @ [error_result f ocr_translation]\<rparr>,
                  calls := calls st @ [f]\<rparr>
           | Some translator_result \<Rightarrow>
               (let entry_result = scored_result ops raw_text f ocr_translation translator_result;
                    score = combined_score ops
                              (similarity_score ops ocr_translation translator_result)
                              (word_overlap_score ops ocr_translation translator_result)
                in if f_ge ops score threshold
                   then st\<lparr>result_lists := (result_lists st)\<lparr>valid := valid (result_lists st) @ [entry_result]\<rparr>,
                           calls := calls st @ [f]\<rparr>
                   else st\<lparr>result_lists := (result_lists st)\<lparr>suspicious := suspicious (result_lists st) @
                             [entry_result\<lparr>reason_of := Some (low_similarity_reason ops score)\<rparr>]\<rparr>,
                           calls := calls st @ [f]\<rparr>)))"

definition empty_vstate :: "'f vstate" where
  "empty_vstate = \<lparr>result_lists = \<lparr>valid = [], suspicious = [], errors = []\<rparr>, calls = []\<rparr>"

definition validate_vocabulary ::
  "'f numerics \<Rightarrow> (nat \<Rightarrow> string \<Rightarrow> string option) \<Rightarrow> 'f \<Rightarrow> string \<Rightarrow> entry list \<Rightarrow> 'f vstate" where
  "validate_vocabulary ops translate threshold raw_text entries =
     fold (\<lambda>e st. validate_entry ops translate threshold raw_text st e) entries empty_vstate"




section \<open>Notions used in the proofs\<close>

text \<open>
  \<open>needs P ic r\<close>: by its shape alone, every match of the pattern \<open>r\<close> reads at least
  one character that satisfies \<open>P\<close>.
\<close>

fun needs :: "(char \<Rightarrow> bool) \<Rightarrow> bool \<Rightarrow> regex \<Rightarrow> bool" where
  "needs P ic (Lit a) = (\<forall>c. lit_match ic a c \<longrightarrow> P c)"
| "needs P ic (Cls items) = (\<forall>c. cls_match ic items c \<longrightarrow> P c)"
| "needs P ic (NCls items) = (\<forall>c. \<not> cls_match ic items c \<longrightarrow> P c)"
| "needs P ic (Seq r1 r2) = (needs P ic r1 \<or> needs P ic r2)"
| "needs P ic (Alt r1 r2) = (needs P ic r1 \<and> needs P ic r2)"
| "needs P ic (Plus r) = needs P ic r"
| "needs P ic (LazyPlus r) = needs P ic r"
| "needs P ic (Rep n r) = (0 < n \<and> needs P ic r)"
| "needs P ic (Grp g r) = needs P ic r"
| "needs P ic (Star r) = False"
| "needs P ic (Opt r) = False"
| "needs P ic Bol = False"
| "needs P ic Eol = False"
| "needs P ic WordB = False"
| "needs P ic Eps = False"

text \<open>The letters \<open>a-z\<close> and \<open>A-Z\<close>.\<close>

definition ascii_lower :: "char \<Rightarrow> bool" where
  "ascii_lower c = (let n = (of_char c :: nat) in 97 \<le> n \<and> n \<le> 122)"

definition ascii_letter :: "char \<Rightarrow> bool" where
  "ascii_letter c = (let n = (of_char c :: nat) in (65 \<le> n \<and> n \<le> 90) \<or> (97 \<le> n \<and> n \<le> 122))"

text \<open>The continuation of a successful match is entered with a suffix of the text.\<close>

definition hands_on :: "(mstate \<Rightarrow> (mstate \<Rightarrow> mstate option) \<Rightarrow> mstate option) \<Rightarrow> bool" where
  "hands_on f = (\<forall>st k x. f st k = Some x \<longrightarrow> (\<exists>st'. k st' = Some x \<and> suffix (rest st') (rest st)))"

chapter \<open>Properties\<close>

section \<open>Scenarios of the English parser\<close>

text \<open>
  Claim C6. For the three lines \<open>to compromise\<close>, \<open>['komprema?z]\<close>,
  \<open>Kompromisse eingehen\<close> (headword and bracketed annotation on separate lines) the
  parser returns exactly one entry, the headword \<open>to compromise\<close> with the translation
  \<open>Kompromisse eingehen\<close>.
\<close>

theorem scenario_split_annotation:
  "parse_english_vocabulary [''to compromise'', ''['komprema?z]'', ''Kompromisse eingehen'']
     = Some [(''to compromise'', ''Kompromisse eingehen'')]"
  by code_simp

text \<open>
  Claim C1. For the two lines \<open>misunderstood\<close>, \<open>missverstanden\<close> the claim expects the
  single entry \<open>(misunderstood, missverstanden)\<close>, as the comment that heads pattern 6
  does. The code returns the empty list: pattern 6 accepts the next line only when it
  holds a German special character, or starts in lower case and holds a semicolon or a
  slash, and \<open>missverstanden\<close> does neither.
\<close>

theorem scenario_bare_word_yields_nothing:
  "parse_english_vocabulary [''misunderstood'', ''missverstanden''] = Some []"
  by code_simp

text \<open>
  Claim C5. Every returned entry should have a headword and a translation of length at
  least 2. Pattern 5 (reflexive verbs) appends its translation after \<open>strip('; ')\<close>
  without the length test that patterns 1 and 2 make: for the two lines
  \<open>to push oneself\<close>, \<open>a; ;\<close> the parser returns an entry whose translation is the
  single character \<open>a\<close>.
\<close>

theorem scenario_reflexive_short_translation:
  "parse_english_vocabulary [''to push oneself'', ''a; ;''] = Some [(''to push oneself'', ''a'')]"
  by code_simp

section \<open>Deduplication\<close>










section \<open>Totality of the line predicates\<close>










section \<open>The enriched flashcard file\<close>

lemma fold_upd_None:
  "fold (\<lambda>e m. m((foreign_of e, ocr_of e) \<mapsto> e)) entries m0 k = None \<longleftrightarrow>
     m0 k = None \<and> k \<notin> (\<lambda>e. (foreign_of e, ocr_of e)) ` set entries"
  by (induction entries arbitrary: m0) auto

lemma fold_upd_Some:
  "fold (\<lambda>e m. m((foreign_of e, ocr_of e) \<mapsto> e)) entries m0 k = Some x \<Longrightarrow>
     m0 k = Some x \<or> (x \<in> set entries \<and> (foreign_of x, ocr_of x) = k)"
proof (induction entries arbitrary: m0)
  case Nil
  then show ?case by simp
next
  case (Cons a entries)
  from Cons.prems
  have "fold (\<lambda>e m. m((foreign_of e, ocr_of e) \<mapsto> e)) entries
          (m0((foreign_of a, ocr_of a) \<mapsto> a)) k = Some x"
    by (simp only: fold.simps o_apply)
  from Cons.IH [OF this]
  have "(m0((foreign_of a, ocr_of a) \<mapsto> a)) k = Some x \<or>
        (x \<in> set entries \<and> (foreign_of x, ocr_of x) = k)" .
  then show ?case by (auto split: if_splits)
qed

lemma pairs_dict_None:
  "pairs_dict entries k = None \<longleftrightarrow> k \<notin> (\<lambda>e. (foreign_of e, ocr_of e)) ` set entries"
  by (simp add: pairs_dict_def fold_upd_None)

lemma pairs_dict_Some:
  "pairs_dict entries k = Some x \<Longrightarrow> x \<in> set entries \<and> (foreign_of x, ocr_of x) = k"
  using fold_upd_Some [of entries Map.empty k x] by (simp add: pairs_dict_def)

lemma lower_strip_differ: "strip (lower a) \<noteq> strip (lower b) \<Longrightarrow> lower a \<noteq> lower b"
  by auto

lemma in_pairs_dict: "in_pairs entries f t \<longleftrightarrow> pairs_dict entries (f, t) \<noteq> None"
  by (auto simp: in_pairs_def pairs_dict_None list_ex_iff)

text \<open>
  Claim C10. \<open>create_enriched_anki_file\<close> writes, after the header, one line per input
  entry and in input order; every line starts with the original headword and a tab. The
  translation on it is the original one, or the original one followed by
  \<open> [Azure: a]\<close>, and the latter only when the suspicious list has an entry with this
  headword and translation whose translator result \<open>a\<close> is not \<open>None\<close> and differs
  from the translation after case folding. An entry whose pair is in the valid list, or
  is not in the suspicious list (errors, unmatched), is written unchanged.
\<close>

theorem enriched_file_lines:
  "fst (create_enriched_anki_file original_entries res deck_name)
     = concat (enriched_header deck_name @ enriched_body original_entries res) \<and>
   list_all2
     (\<lambda>(f, t) line.
        (line = f @ [CHR 0x09] @ t @ [CHR 0x0A] \<or>
         (\<exists>e a. e \<in> set (suspicious res) \<and> foreign_of e = f \<and> ocr_of e = t \<and>
                translator_of e = Some a \<and> lower a \<noteq> lower t \<and>
                line = f @ [CHR 0x09] @ t @ '' [Azure: '' @ a @ '']'' @ [CHR 0x0A])) \<and>
        (in_pairs (valid res) f t \<or> \<not> in_pairs (suspicious res) f t
           \<longrightarrow> line = f @ [CHR 0x09] @ t @ [CHR 0x0A]))
     original_entries (enriched_body original_entries res)"
proof -
  have line: "\<And>f t. (let line = fst (enriched_line (pairs_dict (valid res)) (pairs_dict (suspicious res)) (f, t)) in
        (line = f @ [CHR 0x09] @ t @ [CHR 0x0A] \<or>
         (\<exists>e a. e \<in> set (suspicious res) \<and> foreign_of e = f \<and> ocr_of e = t \<and>
                translator_of e = Some a \<and> lower a \<noteq> lower t \<and>
                line = f @ [CHR 0x09] @ t @ '' [Azure: '' @ a @ '']'' @ [CHR 0x0A])) \<and>
        (in_pairs (valid res) f t \<or> \<not> in_pairs (suspicious res) f t
           \<longrightarrow> line = f @ [CHR 0x09] @ t @ [CHR 0x0A]))"
  proof -
    fix f t
    show "?thesis f t"
    proof (cases "pairs_dict (valid res) (f, t)")
      case (Some v)
      then show ?thesis by (simp add: enriched_line_def)
    next
      case None
      note v = None
      show ?thesis
      proof (cases "pairs_dict (suspicious res) (f, t)")
        case None
        then show ?thesis using v by (simp add: enriched_line_def)
      next
        case (Some e)
        from pairs_dict_Some [OF Some] have e: "e \<in> set (suspicious res)" "foreign_of e = f" "ocr_of e = t"
          by auto
        show ?thesis
        proof (cases "translator_of e")
          case None
          then show ?thesis using v Some by (simp add: enriched_line_def)
        next
          case (Some a)
          note a = Some
          show ?thesis
          proof (cases "a \<noteq> [] \<and> strip (lower a) \<noteq> strip (lower t)")
            case True
            then have "lower a \<noteq> lower t" by auto
            then show ?thesis using v \<open>pairs_dict (suspicious res) (f, t) = Some e\<close> a e True
              by (auto simp: enriched_line_def in_pairs_dict)
          next
            case False
            then show ?thesis using v \<open>pairs_dict (suspicious res) (f, t) = Some e\<close> a
              by (auto simp: enriched_line_def)
          qed
        qed
      qed
    qed
  qed
  show ?thesis
    unfolding enriched_body_def list_all2_map2
    using line by (auto simp: create_enriched_anki_file_def enriched_body_def Let_def intro!: list_all2_same [THEN iffD2] list.rel_refl_strong)
qed

text \<open>
  The theorem at five entries: a valid one, a suspicious one with a different translator
  result, a suspicious one whose translator result differs in case and outer blanks
  only, an error and an unmatched one.
\<close>

lemma demo_body:
  "enriched_body [(''maison'', ''Haus''), (''chat'', ''Kater''), (''eau'', ''Wasser''),
                  (''chien'', ''Hund''), (''lait'', ''Milch'')] demo_results
   = [''maison'' @ [CHR 0x09] @ ''Haus'' @ [CHR 0x0A],
      ''chat'' @ [CHR 0x09] @ ''Kater [Azure: Katze]'' @ [CHR 0x0A],
      ''eau'' @ [CHR 0x09] @ ''Wasser'' @ [CHR 0x0A],
      ''chien'' @ [CHR 0x09] @ ''Hund'' @ [CHR 0x0A],
      ''lait'' @ [CHR 0x09] @ ''Milch'' @ [CHR 0x0A]]"
  by code_simp

theorem enriched_file_lines_witness:
  "enriched_body [(''maison'', ''Haus''), (''chat'', ''Kater''), (''eau'', ''Wasser''),
                  (''chien'', ''Hund''), (''lait'', ''Milch'')] demo_results
   = [''maison'' @ [CHR 0x09] @ ''Haus'' @ [CHR 0x0A],
      ''chat'' @ [CHR 0x09] @ ''Kater [Azure: Katze]'' @ [CHR 0x0A],
      ''eau'' @ [CHR 0x09] @ ''Wasser'' @ [CHR 0x0A],
      ''chien'' @ [CHR 0x09] @ ''Hund'' @ [CHR 0x0A],
      ''lait'' @ [CHR 0x09] @ ''Milch'' @ [CHR 0x0A]] \<and>
   list_all2
     (\<lambda>(f, t) line.
        (line = f @ [CHR 0x09] @ t @ [CHR 0x0A] \<or>
         (\<exists>e a. e \<in> set (suspicious demo_results) \<and> foreign_of e = f \<and> ocr_of e = t \<and>
                translator_of e = Some a \<and> lower a \<noteq> lower t \<and>
                line = f @ [CHR 0x09] @ t @ '' [Azure: '' @ a @ '']'' @ [CHR 0x0A])) \<and>
        (in_pairs (valid demo_results) f t \<or> \<not> in_pairs (suspicious demo_results) f t
           \<longrightarrow> line = f @ [CHR 0x09] @ t @ [CHR 0x0A]))
     [(''maison'', ''Haus''), (''chat'', ''Kater''), (''eau'', ''Wasser''),
      (''chien'', ''Hund''), (''lait'', ''Milch'')]
     (enriched_body [(''maison'', ''Haus''), (''chat'', ''Kater''), (''eau'', ''Wasser''),
                     (''chien'', ''Hund''), (''lait'', ''Milch'')] demo_results)"
  using enriched_file_lines
    [of "[(''maison'', ''Haus''), (''chat'', ''Kater''), (''eau'', ''Wasser''),
          (''chien'', ''Hund''), (''lait'', ''Milch'')]" demo_results "''Deck''"]
    demo_body
  by blast

section \<open>Writing and re-reading the flashcard file\<close>

lemma read_lines_line:
  "list_all (\<lambda>c. c \<noteq> LF \<and> c \<noteq> CR) l \<Longrightarrow>
   read_lines False acc (l @ LF # tl0) = (rev acc @ l @ [LF]) # read_lines False [] tl0"
  by (induction l arbitrary: acc) simp_all

lemma file_lines_concat:
  "list_all (\<lambda>l. list_all (\<lambda>c. c \<noteq> LF \<and> c \<noteq> CR) l) ls \<Longrightarrow>
   read_lines False [] (concat (map (\<lambda>l. l @ [LF]) ls)) = map (\<lambda>l. l @ [LF]) ls"
proof (induction ls)
  case Nil
  show ?case by simp
next
  case (Cons l ls)
  have "read_lines False [] (l @ LF # concat (map (\<lambda>l. l @ [LF]) ls))
          = (l @ [LF]) # read_lines False [] (concat (map (\<lambda>l. l @ [LF]) ls))"
    using read_lines_line [of l "[]"] Cons.prems by simp
  then show ?case using Cons by simp
qed

lemma split_on_nonempty: "split_on sep s \<noteq> []"
  by (induction s) (auto split: list.splits)

lemma split_on_no_sep: "sep \<notin> set s \<Longrightarrow> split_on sep s = [s]"
  by (induction s) auto

lemma split_on_two:
  "sep \<notin> set a \<Longrightarrow> sep \<notin> set b \<Longrightarrow> split_on sep (a @ sep # b) = [a, b]"
  by (induction a) (auto simp: split_on_no_sep)

lemma lstrip_id: "s \<noteq> [] \<Longrightarrow> \<not> py_isspace (hd s) \<Longrightarrow> lstrip (s @ t) = s @ t"
  by (cases s) (simp_all add: lstrip_def)

lemma rstrip_id: "s \<noteq> [] \<Longrightarrow> \<not> py_isspace (last s) \<Longrightarrow> rstrip (t @ s) = t @ s"
  by (cases s rule: rev_cases) (simp_all add: rstrip_def)

lemma rstrip_LF: "rstrip (s @ [LF]) = rstrip s"
  by (simp add: rstrip_def LF_def py_isspace_def)

lemma dropWhile_same_length:
  "length (dropWhile P s) = length s \<Longrightarrow> s = [] \<or> \<not> P (hd s)"
proof (cases s)
  case Nil
  then show ?thesis by simp
next
  case (Cons x xs)
  assume l: "length (dropWhile P s) = length s"
  show ?thesis
  proof (cases "P x")
    case True
    have "length (dropWhile P xs) \<le> length xs" by (rule length_dropWhile_le)
    then show ?thesis using l Cons True by simp
  next
    case False
    then show ?thesis using Cons by simp
  qed
qed

lemma strip_fixed:
  assumes s: "strip s = s" and n: "s \<noteq> []"
  shows "\<not> py_isspace (hd s)" and "\<not> py_isspace (last s)"
proof -
  have a: "length (rstrip (lstrip s)) \<le> length (lstrip s)"
    using length_dropWhile_le [of py_isspace "rev (lstrip s)"] by (simp add: rstrip_def)
  have b: "length (lstrip s) \<le> length s"
    by (simp add: lstrip_def length_dropWhile_le)
  have c: "length (rstrip (lstrip s)) = length s"
    using s by (simp add: strip_def)
  from a b c have "length (dropWhile py_isspace s) = length s"
    by (simp add: lstrip_def)
  from dropWhile_same_length [OF this] n show h: "\<not> py_isspace (hd s)" by simp
  then have l: "lstrip s = s" using n by (cases s) (simp_all add: lstrip_def)
  have "length (dropWhile py_isspace (rev s)) = length (rev s)"
    using c l by (simp add: rstrip_def)
  from dropWhile_same_length [OF this] n have "\<not> py_isspace (hd (rev s))" by simp
  then show "\<not> py_isspace (last s)" using n by (simp add: hd_rev)
qed

lemma strip_entry_line:
  assumes f: "strip front = front" "front \<noteq> []" and b: "strip back = back" "back \<noteq> []"
  shows "strip (front @ [TAB] @ back @ [LF]) = front @ [TAB] @ back"
proof -
  have "lstrip (front @ ([TAB] @ back @ [LF])) = front @ ([TAB] @ back @ [LF])"
    using strip_fixed(1) [OF f] f(2) by (rule_tac lstrip_id) simp_all
  moreover have "rstrip ((front @ [TAB] @ back) @ [LF]) = rstrip (front @ [TAB] @ back)"
    by (rule rstrip_LF)
  moreover have "rstrip ((front @ [TAB]) @ back) = (front @ [TAB]) @ back"
    using strip_fixed(2) [OF b] b(2) by (rule_tac rstrip_id) simp_all
  ultimately show ?thesis by (simp add: strip_def)
qed

lemma strip_header_line:
  assumes "\<not> py_isspace c"
  shows "\<exists>t. strip (c # s) = c # t"
proof -
  have l: "lstrip (c # s) = c # s" using assms by (simp add: lstrip_def)
  have "rev (c # s) = rev s @ [c]" by simp
  then have "dropWhile py_isspace (rev (c # s)) = dropWhile py_isspace (rev s) @ [c] \<or>
             dropWhile py_isspace (rev (c # s)) = [c]"
    using assms by (simp add: dropWhile_append) 
  then show ?thesis using l
    by (auto simp: strip_def rstrip_def intro: exI [of _ "rev (dropWhile py_isspace (rev s))"])
qed

lemma write_entries_clean:
  "list_all (writable_entry language) vocabulary \<Longrightarrow>
   distinct (map (\<lambda>(f, b). (lower f, lower b)) vocabulary) \<Longrightarrow>
   set (map (\<lambda>(f, b). (lower f, lower b)) vocabulary) \<inter> set seen = {} \<Longrightarrow>
   write_entries (language = ''english'') seen vocabulary
     = map (\<lambda>(f, b). f @ [TAB] @ b @ [LF]) vocabulary"
proof (induction vocabulary arbitrary: seen)
  case Nil
  show ?case by simp
next
  case (Cons e vocabulary)
  obtain f b where e: "e = (f, b)" by (cases e)
  have w: "strip f = f" "strip b = b" "2 \<le> length f" "2 \<le> length b"
    "language = ''english'' \<or> \<not> aggressive_skip f b"
    using Cons.prems(1) by (simp_all add: e writable_entry_def)
  have fresh: "(lower f, lower b) \<notin> set seen"
    using Cons.prems(3) by (simp add: e)
  have rest: "write_entries (language = ''english'') ((lower f, lower b) # seen) vocabulary
                = map (\<lambda>(f, b). f @ [TAB] @ b @ [LF]) vocabulary"
    using Cons.prems by (intro Cons.IH) (auto simp: e)
  have ne: "f \<noteq> []" "b \<noteq> []" using w(3,4) by auto
  show ?case using w fresh rest ne
    by (auto simp: e Let_def)
qed

lemma load_lines_clean:
  "list_all (writable_entry language) vocabulary \<Longrightarrow>
   load_lines (map (\<lambda>(f, b). f @ [TAB] @ b @ [LF]) vocabulary) = vocabulary"
proof (induction vocabulary)
  case Nil
  show ?case by simp
next
  case (Cons e vocabulary)
  obtain f b where e: "e = (f, b)" by (cases e)
  have w: "strip f = f" "strip b = b" "2 \<le> length f" "2 \<le> length b"
    "TAB \<notin> set f" "TAB \<notin> set b" "\<not> startswith f ''#''"
    using Cons.prems by (auto simp: e writable_entry_def list_all_iff)
  have ne: "f \<noteq> []" "b \<noteq> []" using w(3,4) by auto
  have s: "strip (f @ [TAB] @ b @ [LF]) = f @ TAB # b"
    using strip_entry_line [OF w(1) ne(1) w(2) ne(2)] by simp
  have h: "\<not> startswith (f @ TAB # b) ''#''"
    using w(7) ne(1) by (cases f) simp_all
  have p: "split_on TAB (f @ TAB # b) = [f, b]"
    using w(5,6) by (rule split_on_two)
  have "load_lines ((f @ [TAB] @ b @ [LF]) # map (\<lambda>(f, b). f @ [TAB] @ b @ [LF]) vocabulary)
          = (f, b) # load_lines (map (\<lambda>(f, b). f @ [TAB] @ b @ [LF]) vocabulary)"
    using s h p ne by (simp add: Let_def)
  then show ?case using Cons by (simp add: e)
qed

lemma load_lines_header:
  "load_lines (map (\<lambda>l. (CHR ''#'' # l) @ [LF]) hs @ ls) = load_lines ls"
proof (induction hs)
  case Nil
  show ?case by simp
next
  case (Cons h hs)
  have "\<not> py_isspace CHR ''#''" by (simp add: py_isspace_def)
  from strip_header_line [OF this] obtain t where "strip (CHR ''#'' # h @ [LF]) = CHR ''#'' # t"
    by blast
  then show ?case using Cons by (simp add: Let_def)
qed

text \<open>
  Claim C3, as amended. For an entry list that \<open>create_anki_file\<close> writes without a
  change (every entry \<open>writable_entry\<close>: fields stripped, at least two characters long,
  free of tabs and line breaks, the headword not starting with \<open>#\<close>, the entry not
  caught by the filtering of the language) and whose case-folded (headword, translation)
  pairs are pairwise different, and for a deck name and a note type without line breaks,
  writing the list and re-parsing the file with \<open>load_anki_file\<close> gives back the same
  pairs in the same order.
\<close>

theorem anki_round_trip:
  assumes clean: "list_all (writable_entry language) vocabulary"
    and dist: "distinct (map (\<lambda>(f, b). (lower f, lower b)) vocabulary)"
    and deck: "single_line deck_name" and ntype: "single_line notetype"
  shows "load_anki_file (fst (create_anki_file vocabulary deck_name notetype language))
           = vocabulary"
proof -
  let ?line = "\<lambda>(f, b). f @ [TAB] @ b @ [LF]"
  let ?text = "\<lambda>(f, b). f @ [TAB] @ b"
  let ?heads = "[''separator:Tab'', ''html:false'', ''deck:'' @ deck_name,
                 ''notetype:'' @ notetype]"
  have body: "write_entries (language = ''english'') [] vocabulary = map ?line vocabulary"
    using clean dist by (intro write_entries_clean) simp_all
  have header: "anki_header deck_name notetype = map (\<lambda>l. (CHR ''#'' # l) @ [LF]) ?heads"
    by (simp add: anki_header_def)
  have body_nl: "map ?line vocabulary = map (\<lambda>l. l @ [LF]) (map ?text vocabulary)"
    by (simp add: case_prod_beta)
  have all: "anki_header deck_name notetype @ map ?line vocabulary
               = map (\<lambda>l. l @ [LF]) (map (\<lambda>l. CHR ''#'' # l) ?heads @ map ?text vocabulary)"
    unfolding header body_nl by simp
  have lf: "CHR ''#'' \<noteq> LF" "CHR ''#'' \<noteq> CR" by (simp_all add: LF_def CR_def)
  have heads_ok: "list_all (\<lambda>l. list_all (\<lambda>c. c \<noteq> LF \<and> c \<noteq> CR) l) (map (\<lambda>l. CHR ''#'' # l) ?heads)"
    using deck ntype lf by (simp add: single_line_def LF_def CR_def)
  have body_ok: "list_all (\<lambda>l. list_all (\<lambda>c. c \<noteq> LF \<and> c \<noteq> CR) l) (map ?text vocabulary)"
    using clean by (auto simp: list_all_iff writable_entry_def TAB_def LF_def CR_def)
  have "file_lines (concat (anki_header deck_name notetype @ map ?line vocabulary))
          = anki_header deck_name notetype @ map ?line vocabulary"
    unfolding all file_lines_def using heads_ok body_ok
    by (intro file_lines_concat) simp
  then have "load_anki_file (fst (create_anki_file vocabulary deck_name notetype language))
               = load_lines (map (\<lambda>l. (CHR ''#'' # l) @ [LF]) ?heads @ map ?line vocabulary)"
    by (simp add: load_anki_file_def create_anki_file_def body header Let_def)
  also have "\<dots> = load_lines (map ?line vocabulary)" by (rule load_lines_header)
  also have "\<dots> = vocabulary" using clean by (rule load_lines_clean)
  finally show ?thesis .
qed

text \<open>The theorem at two French entries.\<close>

theorem anki_round_trip_witness:
  "list_all (writable_entry ''french'') [(''le chat'', ''die Katze''), (''aller'', ''gehen'')] \<and>
   distinct (map (\<lambda>(f, b). (lower f, lower b))
               [(''le chat'', ''die Katze''), (''aller'', ''gehen'')]) \<and>
   single_line ''France Unit-2'' \<and> single_line ''Einfach (beide Richtungen)'' \<and>
   load_anki_file (fst (create_anki_file [(''le chat'', ''die Katze''), (''aller'', ''gehen'')]
                          ''France Unit-2'' ''Einfach (beide Richtungen)'' ''french''))
     = [(''le chat'', ''die Katze''), (''aller'', ''gehen'')]"
proof -
  have a: "list_all (writable_entry ''french'')
             [(''le chat'', ''die Katze''), (''aller'', ''gehen'')]"
    by code_simp
  have b: "distinct (map (\<lambda>(f, b). (lower f, lower b))
               [(''le chat'', ''die Katze''), (''aller'', ''gehen'')])"
    by code_simp
  have c: "single_line ''France Unit-2''" and d: "single_line ''Einfach (beide Richtungen)''"
    by code_simp+
  from anki_round_trip [OF a b c d] a b c d show ?thesis by blast
qed

text \<open>
  The claim as stated, for every entry list, fails: the writer strips the fields, drops
  entries with a field shorter than two characters and entries whose case-folded pair
  was written before, and filters the entries of the languages other than English. A
  list of two entries that differ in case only comes back as one entry.
\<close>

theorem anki_round_trip_counterexample:
  "load_anki_file (fst (create_anki_file [(''le chat'', ''die Katze''), (''Le chat'', ''die Katze'')]
                          ''France Unit-2'' ''Einfach (beide Richtungen)'' ''french''))
     \<noteq> [(''le chat'', ''die Katze''), (''Le chat'', ''die Katze'')]"
  by code_simp

section \<open>The overwrite guard of the command line program\<close>

lemma mkdir_p_dir: "fs p = Some Dir \<Longrightarrow> mkdir_p fs p = Some fs"
  by (subst mkdir_p.simps) simp

text \<open>
  Claim C2, as amended. If the output file exists (in its output folder, a directory) and
  neither \<open>--force\<close> nor \<open>--reset\<close> was passed, the program leaves the file system as it
  is (no file is written, the existing output file included) and ends with exit status 0
  after its refusal message; only when the input folder does not exist does it end with
  status 1, before it looks at the output file.
\<close>

theorem overwrite_guard:
  assumes "fs (output_file_of a) = Some (File content)"
    and "fs (output_folder_of a) = Some Dir"
    and "\<not> arg_force a" and "\<not> arg_reset a"
  shows "snd (main co a fs) = fs \<and>
         fst (main co a fs) = (if fs (arg_folder a) = None then Exit 1 else Exit 0)"
  using assms by (simp add: main_def mkdir_p_dir)

lemma demo_output_file: "output_file_of demo_args = [''output'', ''anki_english_unit-1.txt'']"
  by code_simp

lemma demo_output_folder: "output_folder_of demo_args = [''output'']"
  by code_simp

text \<open>The theorem at a run whose output file holds reviewed cards.\<close>

theorem overwrite_guard_witness:
  "demo_fs (output_file_of demo_args) = Some (File ''reviewed cards'') \<and>
   demo_fs (output_folder_of demo_args) = Some Dir \<and>
   \<not> arg_force demo_args \<and> \<not> arg_reset demo_args \<and>
   snd (main demo_collaborators demo_args demo_fs) = demo_fs \<and>
   fst (main demo_collaborators demo_args demo_fs) = Exit 0"
proof -
  have f: "demo_fs (output_file_of demo_args) = Some (File ''reviewed cards'')"
    by (simp add: demo_output_file demo_fs_def)
  have d: "demo_fs (output_folder_of demo_args) = Some Dir"
    by (simp add: demo_output_folder demo_fs_def)
  have o: "\<not> arg_force demo_args" "\<not> arg_reset demo_args"
    by (simp_all add: demo_args_def)
  have e: "demo_fs (arg_folder demo_args) \<noteq> None"
    by (simp add: demo_args_def demo_fs_def)
  from overwrite_guard [OF f d o, of demo_collaborators] f d o e show ?thesis by simp
qed

text \<open>
  The claim as stated asks for a non-zero exit status. The guard ends the run with
  \<open>sys.exit(0)\<close>: the existing output is skipped, and the skip counts as a success.
\<close>

theorem overwrite_guard_counterexample:
  "demo_fs (output_file_of demo_args) \<noteq> None \<and> \<not> arg_force demo_args \<and>
   \<not> arg_reset demo_args \<and> fst (main demo_collaborators demo_args demo_fs) = Exit 0"
proof -
  have f: "demo_fs (output_file_of demo_args) = Some (File ''reviewed cards'')"
    by (simp add: demo_output_file demo_fs_def)
  have d: "mkdir_p demo_fs (output_folder_of demo_args) = Some demo_fs"
    by (rule mkdir_p_dir) (simp add: demo_output_folder demo_fs_def)
  have e: "demo_fs (arg_folder demo_args) \<noteq> None"
    by (simp add: demo_args_def demo_fs_def)
  have o: "\<not> arg_force demo_args" "\<not> arg_reset demo_args"
    by (simp_all add: demo_args_def)
  show ?thesis using f d e o by (simp add: main_def)
qed

section \<open>The verdicts of the validation pass\<close>







section \<open>Identical pairs and the loanword list\<close>

lemma hands_onD:
  "hands_on f \<Longrightarrow> f st k = Some x \<Longrightarrow> \<exists>st'. k st' = Some x \<and> suffix (rest st') (rest st)"
  unfolding hands_on_def by blast

lemma step_char_hands_on: "hands_on (step_char p)"
  unfolding hands_on_def
proof (intro allI impI)
  fix st k x
  assume a: "step_char p st k = Some x"
  then obtain c cs where r: "rest st = c # cs" and k: "k (MState (Some c) cs (caps st)) = Some x"
    by (auto simp: step_char_def split: list.splits if_splits)
  have "suffix (rest (MState (Some c) cs (caps st))) (rest st)"
    using r by (simp add: suffix_ConsI)
  with k show "\<exists>st'. k st' = Some x \<and> suffix (rest st') (rest st)" by blast
qed

lemma star_loop_hands_on:
  assumes f: "hands_on f"
  shows "star_loop f n st k = Some x \<Longrightarrow> \<exists>st'. k st' = Some x \<and> suffix (rest st') (rest st)"
proof (induction n arbitrary: st k x)
  case 0
  then show ?case by auto
next
  case (Suc n)
  let ?k = "\<lambda>st'. if progress st st' then star_loop f n st' k else None"
  show ?case
  proof (cases "f st ?k")
    case None
    then have "k st = Some x" using Suc.prems by simp
    then show ?thesis by auto
  next
    case (Some y)
    then have y: "y = x" using Suc.prems by simp
    from hands_onD [OF f Some] obtain st1 where k1: "?k st1 = Some y" and s1: "suffix (rest st1) (rest st)"
      by blast
    from k1 have "star_loop f n st1 k = Some y" by (simp split: if_splits)
    from Suc.IH [OF this] obtain st' where "k st' = Some y" "suffix (rest st') (rest st1)" by blast
    then show ?thesis using s1 y by (auto intro: suffix_order.trans)
  qed
qed

lemma lazy_loop_hands_on:
  assumes f: "hands_on f"
  shows "lazy_loop f n st k = Some x \<Longrightarrow> \<exists>st'. k st' = Some x \<and> suffix (rest st') (rest st)"
proof (induction n arbitrary: st k x)
  case 0
  then show ?case by auto
next
  case (Suc n)
  let ?k = "\<lambda>st'. if progress st st' then lazy_loop f n st' k else None"
  show ?case
  proof (cases "k st")
    case (Some y)
    then have "k st = Some x" using Suc.prems by simp
    then show ?thesis by auto
  next
    case None
    then have fx: "f st ?k = Some x" using Suc.prems by simp
    from hands_onD [OF f fx] obtain st1 where k1: "?k st1 = Some x" and s1: "suffix (rest st1) (rest st)"
      by blast
    from k1 have "lazy_loop f n st1 k = Some x" by (simp split: if_splits)
    from Suc.IH [OF this] obtain st' where "k st' = Some x" "suffix (rest st') (rest st1)" by blast
    then show ?thesis using s1 by (auto intro: suffix_order.trans)
  qed
qed

lemma rep_loop_hands_on:
  assumes f: "hands_on f"
  shows "rep_loop f n st k = Some x \<Longrightarrow> \<exists>st'. k st' = Some x \<and> suffix (rest st') (rest st)"
proof (induction n arbitrary: st k x)
  case 0
  then show ?case by auto
next
  case (Suc n)
  then have fx: "f st (\<lambda>st'. rep_loop f n st' k) = Some x" by simp
  from hands_onD [OF f fx] obtain st1 where k1: "rep_loop f n st1 k = Some x"
    and s1: "suffix (rest st1) (rest st)" by blast
  from Suc.IH [OF k1] obtain st' where "k st' = Some x" "suffix (rest st') (rest st1)" by blast
  then show ?case using s1 by (auto intro: suffix_order.trans)
qed

lemma rmatch_hands_on: "hands_on (rmatch ic r)"
proof (induction r)
  case (Lit a)
  show ?case using step_char_hands_on [of "lit_match ic a"] by (simp add: hands_on_def)
next
  case (Cls items)
  show ?case using step_char_hands_on [of "cls_match ic items"] by (simp add: hands_on_def)
next
  case (NCls items)
  show ?case using step_char_hands_on [of "\<lambda>c. \<not> cls_match ic items c"] by (simp add: hands_on_def)
next
  case (Seq r1 r2)
  show ?case unfolding hands_on_def
  proof (intro allI impI)
    fix st k x
    assume "rmatch ic (Seq r1 r2) st k = Some x"
    then have a: "rmatch ic r1 st (\<lambda>st'. rmatch ic r2 st' k) = Some x" by simp
    from hands_onD [OF Seq.IH(1) a] obtain st1 where b: "rmatch ic r2 st1 k = Some x"
      and s1: "suffix (rest st1) (rest st)" by blast
    from hands_onD [OF Seq.IH(2) b] obtain st' where "k st' = Some x" "suffix (rest st') (rest st1)"
      by blast
    then show "\<exists>st'. k st' = Some x \<and> suffix (rest st') (rest st)"
      using s1 by (auto intro: suffix_order.trans)
  qed
next
  case (Alt r1 r2)
  show ?case unfolding hands_on_def
  proof (intro allI impI)
    fix st k x
    assume a: "rmatch ic (Alt r1 r2) st k = Some x"
    then have "rmatch ic r1 st k = Some x \<or> rmatch ic r2 st k = Some x"
      by (simp split: option.splits)
    then show "\<exists>st'. k st' = Some x \<and> suffix (rest st') (rest st)"
      using hands_onD [OF Alt.IH(1)] hands_onD [OF Alt.IH(2)] by blast
  qed
next
  case (Star r)
  show ?case unfolding hands_on_def
    using star_loop_hands_on [OF Star.IH] by simp
next
  case (Plus r)
  show ?case unfolding hands_on_def
  proof (intro allI impI)
    fix st k x
    assume "rmatch ic (Plus r) st k = Some x"
    then have a: "rmatch ic r st (\<lambda>st'. star_loop (rmatch ic r) (length (rest st')) st' k) = Some x"
      by simp
    from hands_onD [OF Plus.IH a] obtain st1
      where b: "star_loop (rmatch ic r) (length (rest st1)) st1 k = Some x"
      and s1: "suffix (rest st1) (rest st)" by blast
    from star_loop_hands_on [OF Plus.IH b] obtain st' where "k st' = Some x" "suffix (rest st') (rest st1)"
      by blast
    then show "\<exists>st'. k st' = Some x \<and> suffix (rest st') (rest st)"
      using s1 by (auto intro: suffix_order.trans)
  qed
next
  case (LazyPlus r)
  show ?case unfolding hands_on_def
  proof (intro allI impI)
    fix st k x
    assume "rmatch ic (LazyPlus r) st k = Some x"
    then have a: "rmatch ic r st (\<lambda>st'. lazy_loop (rmatch ic r) (length (rest st')) st' k) = Some x"
      by simp
    from hands_onD [OF LazyPlus.IH a] obtain st1
      where b: "lazy_loop (rmatch ic r) (length (rest st1)) st1 k = Some x"
      and s1: "suffix (rest st1) (rest st)" by blast
    from lazy_loop_hands_on [OF LazyPlus.IH b] obtain st' where "k st' = Some x" "suffix (rest st') (rest st1)"
      by blast
    then show "\<exists>st'. k st' = Some x \<and> suffix (rest st') (rest st)"
      using s1 by (auto intro: suffix_order.trans)
  qed
next
  case (Opt r)
  show ?case unfolding hands_on_def
  proof (intro allI impI)
    fix st k x
    assume a: "rmatch ic (Opt r) st k = Some x"
    then have "rmatch ic r st k = Some x \<or> k st = Some x"
      by (simp split: option.splits)
    then show "\<exists>st'. k st' = Some x \<and> suffix (rest st') (rest st)"
      using hands_onD [OF Opt.IH] by auto
  qed
next
  case (Rep n r)
  show ?case unfolding hands_on_def
    using rep_loop_hands_on [OF Rep.IH] by simp
next
  case (Grp g r)
  show ?case unfolding hands_on_def
  proof (intro allI impI)
    fix st k x
    assume "rmatch ic (Grp g r) st k = Some x"
    then have a: "rmatch ic r st
       (\<lambda>st'. k (MState (prev st') (rest st')
                   ((g, take (length (rest st) - length (rest st')) (rest st)) # caps st'))) = Some x"
      by simp
    from hands_onD [OF Grp.IH a] obtain st1
      where b: "k (MState (prev st1) (rest st1)
                   ((g, take (length (rest st) - length (rest st1)) (rest st)) # caps st1)) = Some x"
      and s1: "suffix (rest st1) (rest st)" by blast
    have "suffix (rest (MState (prev st1) (rest st1)
                   ((g, take (length (rest st) - length (rest st1)) (rest st)) # caps st1))) (rest st)"
      using s1 by simp
    with b show "\<exists>st'. k st' = Some x \<and> suffix (rest st') (rest st)" by blast
  qed
next
  case Bol
  show ?case by (auto simp: hands_on_def split: if_splits)
next
  case Eol
  show ?case by (auto simp: hands_on_def split: if_splits)
next
  case WordB
  show ?case by (auto simp: hands_on_def split: if_splits)
next
  case Eps
  show ?case by (auto simp: hands_on_def)
qed

lemma list_all_suffix: "suffix xs ys \<Longrightarrow> list_all Q ys \<Longrightarrow> list_all Q xs"
  by (auto simp: suffix_def)

lemma step_char_needs:
  assumes "\<forall>c. p c \<longrightarrow> P c" and "list_all (\<lambda>c. \<not> P c) (rest st)"
  shows "step_char p st k = None"
  using assms by (cases "rest st") (auto simp: step_char_def)

lemma needs_no_match:
  "needs P ic r \<Longrightarrow> list_all (\<lambda>c. \<not> P c) (rest st) \<Longrightarrow> rmatch ic r st k = None"
proof (induction r arbitrary: st k)
  case (Lit a)
  then show ?case by (simp add: step_char_needs)
next
  case (Cls items)
  then show ?case by (simp add: step_char_needs)
next
  case (NCls items)
  then show ?case by (simp add: step_char_needs)
next
  case (Seq r1 r2)
  show ?case
  proof (cases "needs P ic r1")
    case True
    from Seq.IH(1) [OF True Seq.prems(2)] show ?thesis by simp
  next
    case False
    then have n2: "needs P ic r2" using Seq.prems(1) by simp
    show ?thesis
    proof (rule ccontr)
      assume "rmatch ic (Seq r1 r2) st k \<noteq> None"
      then obtain x where "rmatch ic r1 st (\<lambda>st'. rmatch ic r2 st' k) = Some x" by auto
      from hands_onD [OF rmatch_hands_on this] obtain st1
        where b: "rmatch ic r2 st1 k = Some x" and s1: "suffix (rest st1) (rest st)" by blast
      have "list_all (\<lambda>c. \<not> P c) (rest st1)" using s1 Seq.prems(2) by (rule list_all_suffix)
      from Seq.IH(2) [OF n2 this] b show False by simp
    qed
  qed
next
  case (Alt r1 r2)
  then show ?case by simp
next
  case (Plus r)
  then show ?case by simp
next
  case (LazyPlus r)
  then show ?case by simp
next
  case (Rep n r)
  then obtain m where "n = Suc m" by (cases n) auto
  then show ?case using Rep by simp
next
  case (Grp g r)
  then show ?case by simp
qed simp_all

lemma search_from_needs:
  "needs P ic r \<Longrightarrow> list_all (\<lambda>c. \<not> P c) s \<Longrightarrow> search_from ic r p s = None"
proof (induction s arbitrary: p)
  case Nil
  then show ?case by (simp add: needs_no_match)
next
  case (Cons c cs)
  have "rmatch ic r (MState p (c # cs) []) Some = None"
    using Cons.prems by (intro needs_no_match) simp_all
  then show ?case using Cons by simp
qed

lemma needs_sentence_clause: "needs py_isspace False pat_sentence_clause"
  by (simp add: pat_sentence_clause_def cls_match_def)

lemma needs_sentence_tail: "needs py_isspace False pat_sentence_tail"
  by (simp add: pat_sentence_tail_def cls_match_def)

lemma lower_char_ascii: "ascii_lower (lower_char c) \<Longrightarrow> ascii_letter c"
  by (auto simp: lower_char_def ascii_lower_def ascii_letter_def py_isupper_def Let_def
        split: if_splits)

lemma lower_ascii: "list_all ascii_lower (lower s) \<Longrightarrow> list_all ascii_letter s"
  by (induction s) (auto simp: lower_def lower_char_ascii)

lemma ascii_letter_facts:
  assumes "ascii_letter c"
  shows "\<not> py_isspace c" "c \<notin> set german_indicators" "c \<noteq> CHR ''.''" "c \<noteq> CHR ''/''"
    "c \<noteq> CHR '' ''"
  using assms
  by (auto simp: ascii_letter_def py_isspace_def german_indicators_def Let_def a_uml_def o_uml_def
        u_uml_def sharp_s_def cap_a_uml_def cap_o_uml_def cap_u_uml_def)

lemma split_ws_acc_no_space:
  "list_all (\<lambda>c. \<not> py_isspace c) s \<Longrightarrow>
   split_ws_acc w s = (if w = [] \<and> s = [] then [] else [rev w @ s])"
  by (induction s arbitrary: w) auto

lemma split_ws_no_space:
  "list_all (\<lambda>c. \<not> py_isspace c) s \<Longrightarrow> s \<noteq> [] \<Longrightarrow> split_ws s = [s]"
  by (simp add: split_ws_def split_ws_acc_no_space)

lemma startswith_subset: "startswith s p \<Longrightarrow> set p \<subseteq> set s"
  by (induction s p rule: startswith.induct) auto

lemma contains_subset: "contains s p \<Longrightarrow> set p \<subseteq> set s"
proof (induction s)
  case Nil
  then show ?case by simp
next
  case (Cons a s)
  from Cons.prems have "startswith (a # s) p \<or> contains s p" by simp
  then show ?case
  proof
    assume "startswith (a # s) p"
    then show ?thesis by (rule startswith_subset)
  next
    assume "contains s p"
    then have "set p \<subseteq> set s" by (rule Cons.IH)
    then show ?thesis by auto
  qed
qed

lemma loanwords_ascii: "list_all (\<lambda>w. w \<noteq> [] \<and> list_all ascii_lower w) loanwords"
  by code_simp

lemma loanwords_not_german:
  "list_all (\<lambda>w. \<not> list_ex (\<lambda>g. g \<in> set [w])
                     [''sein'', ''haben'', ''nicht'', ''und'', ''oder'', ''mit'', ''sich''] \<and>
                 \<not> list_ex (\<lambda>p. contains w p) german_compounds \<and> w \<noteq> ''so'') loanwords"
  by code_simp

lemma loanword_kept:
  assumes w: "lower eng \<in> set loanwords" and g: "lower ger = lower eng"
  shows "is_bad_entry eng ger = Some False"
proof -
  from w loanwords_ascii have ne: "lower eng \<noteq> []" and al: "list_all ascii_lower (lower eng)"
    by (auto simp: list_all_iff)
  from w loanwords_not_german
  have ng: "\<not> list_ex (\<lambda>g. g \<in> set [lower eng])
                     [''sein'', ''haben'', ''nicht'', ''und'', ''oder'', ''mit'', ''sich'']"
    and nc: "\<not> list_ex (\<lambda>p. contains (lower eng) p) german_compounds"
    and nso: "lower eng \<noteq> ''so''"
    by (auto simp: list_all_iff)
  have le: "list_all ascii_letter eng" using al by (rule lower_ascii)
  have lg: "list_all ascii_letter ger" using al g lower_ascii [of ger] by simp
  have e0: "eng \<noteq> []" using ne by (auto simp: lower_def)
  have sp_e: "list_all (\<lambda>c. \<not> py_isspace c) (lower eng)"
    using al by (auto simp: list_all_iff ascii_lower_def py_isspace_def Let_def)
  have sp_g: "list_all (\<lambda>c. \<not> py_isspace c) ger"
    using lg ascii_letter_facts(1) by (auto simp: list_all_iff)
  have ind: "\<not> list_ex (\<lambda>c. c \<in> set eng) german_indicators"
    using le ascii_letter_facts(2) by (auto simp: list_all_iff list_ex_iff)
  have words: "split_ws (lower eng) = [lower eng]"
    using sp_e ne by (rule split_ws_no_space)
  have 1: "\<not> looks_like_german eng"
    using ind ng by (simp add: looks_like_german_def words Let_def)
  have dot: "CHR ''.'' \<notin> set eng" and slash: "CHR ''/'' \<notin> set eng"
    using le ascii_letter_facts(3,4) by (auto simp: list_all_iff)
  have blank: "CHR '' '' \<notin> set ger"
    using lg ascii_letter_facts(5) by (auto simp: list_all_iff)
  have dash: "\<not> contains ger '' - ''"
    using blank contains_subset [of ger "'' - ''"] by auto
  have s1: "re_search pat_sentence_clause ger = None"
    unfolding re_search_def using needs_sentence_clause sp_g by (rule search_from_needs)
  have s2: "re_search pat_sentence_tail ger = None"
    unfolding re_search_def using needs_sentence_tail sp_g by (rule search_from_needs)
  obtain c cs where ec: "eng = c # cs" using e0 by (cases eng) auto
  show ?thesis
    using 1 nc w dot slash dash s1 s2 nso
    by (simp add: is_bad_entry_def ec index0_def)
qed

lemma identical_pair_verdict:
  assumes "lower eng = lower ger"
  shows "is_bad_entry eng ger = Some (lower eng \<notin> set loanwords)"
proof (cases "lower eng \<in> set loanwords")
  case True
  from loanword_kept [OF True assms [symmetric]] True show ?thesis by simp
next
  case False
  have same: "strip (lower eng) = strip (lower ger)" using assms by simp
  have "(if strip (lower eng) = strip (lower ger) \<and> lower eng \<notin> set loanwords
         then Some True else x) = Some True" for x :: "bool option"
    using same False by simp
  then have "is_bad_entry eng ger = Some True"
    unfolding is_bad_entry_def by (simp only: if_cancel)
  then show ?thesis using False by simp
qed

text \<open>
  Claim C7. In the filtering pass an entry whose headword and translation are identical
  after case folding is kept if and only if the case-folded headword is on the loanword
  list: \<open>is_bad_entry\<close> answers \<open>False\<close> for it when \<open>eng.lower()\<close> is a loanword and
  \<open>True\<close> otherwise, and never raises. In particular \<open>(digital, digital)\<close> and
  \<open>(cover, cover)\<close> are kept and \<open>(happy, happy)\<close> is dropped.
\<close>

theorem identical_pair_filter:
  "(lower eng = lower ger \<longrightarrow> is_bad_entry eng ger = Some (lower eng \<notin> set loanwords)) \<and>
   is_bad_entry ''digital'' ''digital'' = Some False \<and>
   is_bad_entry ''cover'' ''cover'' = Some False \<and>
   is_bad_entry ''happy'' ''happy'' = Some True \<and>
   filter_bad [(''digital'', ''digital''), (''cover'', ''cover''), (''happy'', ''happy'')]
     = Some [(''digital'', ''digital''), (''cover'', ''cover'')]"
proof -
  have a: "is_bad_entry ''digital'' ''digital'' = Some False" by code_simp
  have b: "is_bad_entry ''cover'' ''cover'' = Some False" by code_simp
  have c: "is_bad_entry ''happy'' ''happy'' = Some True" by code_simp
  have d: "filter_bad [(''digital'', ''digital''), (''cover'', ''cover''), (''happy'', ''happy'')]
     = Some [(''digital'', ''digital''), (''cover'', ''cover'')]"
    by (simp add: a b c)
  from identical_pair_verdict a b c d show ?thesis by blast
qed

text \<open>The theorem at two pairs that are identical up to case.\<close>

theorem identical_pair_filter_witness:
  "lower ''Digital'' = lower ''DIGITAL'' \<and> lower ''Digital'' \<in> set loanwords \<and>
   is_bad_entry ''Digital'' ''DIGITAL'' = Some False \<and>
   lower ''Happy'' = lower ''happy'' \<and> lower ''Happy'' \<notin> set loanwords \<and>
   is_bad_entry ''Happy'' ''happy'' = Some True"
proof -
  have a: "lower ''Digital'' = lower ''DIGITAL''" by code_simp
  have b: "lower ''Digital'' \<in> set loanwords" by code_simp
  have c: "lower ''Happy'' = lower ''happy''" by code_simp
  have d: "lower ''Happy'' \<notin> set loanwords" by code_simp
  from identical_pair_filter [of "''Digital''" "''DIGITAL''"] a b
  have e: "is_bad_entry ''Digital'' ''DIGITAL'' = Some False" by simp
  from identical_pair_filter [of "''Happy''" "''happy''"] c d
  have f: "is_bad_entry ''Happy'' ''happy'' = Some True" by simp
  from a b c d e f show ?thesis by blast
qed

end
